theory Spec2Isabelle
  imports Complex_Main "HOL-Library.AList" "HOL-Library.Log_Nat" "HOL-Library.Multiset"
    "HOL-Library.Product_Lexorder"
begin

section \<open>JavaScript values and built-ins used by the scoring pipeline\<close>

text \<open>
  The recommendation engine of the "Find Your Best Spot" script works on JavaScript
  numbers, on the sentinel string \<^verbatim>\<open>'N/A'\<close> and on \<^verbatim>\<open>undefined\<close>/\<^verbatim>\<open>null\<close>.
  A number is the rational that the double denotes. \<^verbatim>\<open>NaN\<close> is a value of its own
  because the script tests for it; \<^verbatim>\<open>-Infinity\<close> appears only as the raw score of
  placeholder zones and has its own constructor in the type of raw scores. Readings that
  spell \<^verbatim>\<open>Infinity\<close> or leave the normal range of doubles are outside this model.
  Strings are lists of 8-bit characters.

  The CSV parsers read decimals and then add, multiply and divide them before
  \<^verbatim>\<open>Math.round\<close> or \<^verbatim>\<open>toFixed\<close> cuts the result, so the last bit of a sum can decide
  the average: their arithmetic is modelled with the rounding of IEEE doubles after every
  operation. The scorer and the normaliser work on those averages and on thresholds with
  at most one decimal; their few operations are modelled exactly.
\<close>

datatype jsval = Num rat | NaN | Str string | Undefined | Null

datatype score = NegInfinity | Fin rat

subsection \<open>Double arithmetic\<close>

definition pow2 :: "int \<Rightarrow> rat" where
  "pow2 q = (if 0 \<le> q then 2 ^ nat q else 1 / 2 ^ nat (- q))"

text \<open>The exponent \<open>e\<close> of a positive number \<open>y\<close>: \<open>2\<^sup>e \<le> y < 2\<^sup>e\<^sup>+\<^sup>1\<close>.\<close>

definition binaryExponent :: "rat \<Rightarrow> int" where
  "binaryExponent y =
     (if 1 \<le> y then bitlen \<lfloor>y\<rfloor> - 1
      else (let k = bitlen \<lfloor>1 / y\<rfloor> - 1
            in if y = pow2 (- k) then - k else - k - 1))"

definition roundHalfEven :: "rat \<Rightarrow> int" where
  "roundHalfEven y =
     (let f = \<lfloor>y\<rfloor>; r = y - of_int f
      in if r < 1 / 2 then f
         else if r > 1 / 2 then f + 1
         else if even f then f else f + 1)"

text \<open>
  The double nearest to a rational, a tie going to the even significand: 53 significant
  bits at the exponent of the number.
\<close>

definition toDouble :: "rat \<Rightarrow> rat" where
  "toDouble x =
     (if x = 0 then 0
      else (let q = binaryExponent \<bar>x\<bar> - 52;
                m = roundHalfEven (\<bar>x\<bar> / pow2 q)
            in (if x < 0 then - of_int m else of_int m) * pow2 q))"

text \<open>The operators \<^verbatim>\<open>+\<close>, \<^verbatim>\<open>*\<close> and \<^verbatim>\<open>/\<close> on doubles.\<close>

definition dadd :: "rat \<Rightarrow> rat \<Rightarrow> rat" where
  "dadd a b = toDouble (a + b)"

definition dmul :: "rat \<Rightarrow> rat \<Rightarrow> rat" where
  "dmul a b = toDouble (a * b)"

definition ddiv :: "rat \<Rightarrow> rat \<Rightarrow> rat" where
  "ddiv a b = toDouble (a / b)"

subsection \<open>Strings and numeric literals\<close>

definition is_ws :: "char \<Rightarrow> bool" where
  "is_ws c = (c \<in> set [CHR 0x09, CHR 0x0A, CHR 0x0B, CHR 0x0C, CHR 0x0D, CHR 0x20, CHR 0xA0])"

definition is_digit :: "char \<Rightarrow> bool" where
  "is_digit c = (c \<in> set ''0123456789'')"

definition digit_val :: "char \<Rightarrow> nat" where
  "digit_val c = (case map_of (zip ''0123456789'' [0 ..< 10]) c of Some d \<Rightarrow> d | None \<Rightarrow> 0)"

definition digits_val :: "string \<Rightarrow> nat" where
  "digits_val ds = foldl (\<lambda>acc c. 10 * acc + digit_val c) 0 ds"

text \<open>\<^verbatim>\<open>String.prototype.trim\<close>.\<close>

definition trim :: "string \<Rightarrow> string" where
  "trim s = rev (dropWhile is_ws (rev (dropWhile is_ws s)))"

text \<open>An optional sign in front of a numeric literal: the flag says whether it was a minus.\<close>

definition take_sign :: "string \<Rightarrow> bool \<times> string" where
  "take_sign s =
     (case s of
        [] \<Rightarrow> (False, [])
      | c # r \<Rightarrow> if c = CHR ''-'' then (True, r) else if c = CHR ''+'' then (False, r) else (False, s))"

text \<open>
  \<^verbatim>\<open>parseFloat\<close> on a string: leading white space is skipped, then the longest prefix
  that is a decimal literal (sign, digits, fraction, exponent) is read and rounded to the
  nearest double; \<open>None\<close> stands for \<^verbatim>\<open>NaN\<close>.
\<close>

definition parseFloat :: "string \<Rightarrow> rat option" where
  "parseFloat s =
     (let (neg, t1) = take_sign (dropWhile is_ws s);
          ip = takeWhile is_digit t1;
          t2 = dropWhile is_digit t1;
          (fp, t3) = (case t2 of
                        [] \<Rightarrow> ([], [])
                      | c # r \<Rightarrow> if c = CHR ''.'' then (takeWhile is_digit r, dropWhile is_digit r)
                                 else ([], t2));
          ex = (case t3 of
                  [] \<Rightarrow> (0::int)
                | c # r \<Rightarrow>
                    if c = CHR ''e'' \<or> c = CHR ''E'' then
                      (let (eneg, r1) = take_sign r; ed = takeWhile is_digit r1
                       in if ed = [] then 0
                          else if eneg then - int (digits_val ed) else int (digits_val ed))
                    else 0);
          m = (of_nat (digits_val (ip @ fp)) :: rat) / 10 ^ length fp;
          v = (if 0 \<le> ex then m * 10 ^ nat ex else m / 10 ^ nat (- ex))
      in if ip = [] \<and> fp = [] then None else Some (toDouble (if neg then - v else v)))"

text \<open>\<^verbatim>\<open>parseFloat\<close> on any value of the model: a number is read back as itself.\<close>

fun parseFloat_val :: "jsval \<Rightarrow> rat option" where
  "parseFloat_val (Num r) = Some r"
| "parseFloat_val NaN = None"
| "parseFloat_val (Str s) = parseFloat s"
| "parseFloat_val Undefined = None"
| "parseFloat_val Null = None"

text \<open>
  The number that \<^verbatim>\<open>x.toFixed(d)\<close> prints: the nearest multiple of \<open>10\<^sup>-\<^sup>d\<close>, a tie
  going away from zero. \<^verbatim>\<open>Math.round\<close> is \<^const>\<open>round\<close>: a tie goes up.
\<close>

definition toFixed :: "nat \<Rightarrow> rat \<Rightarrow> rat" where
  "toFixed d x =
     (let n = \<lfloor>\<bar>x\<bar> * 10 ^ d + 1 / 2\<rfloor>
      in (if x < 0 then - of_int n else of_int n) / 10 ^ d)"

section \<open>Scoring constants\<close>

definition MAX_SCORE_PER_CRITERION :: rat where
  "MAX_SCORE_PER_CRITERION = 100"

definition PENALTY_NO_DATA_IF_PREFERRED :: rat where
  "PENALTY_NO_DATA_IF_PREFERRED = - 200"

definition PENALTY_OUT_OF_RANGE_FACTOR :: rat where
  "PENALTY_OUT_OF_RANGE_FACTOR = 5"

section \<open>Criterion scorer\<close>

definition calculateCriterionScore :: "jsval \<Rightarrow> rat \<Rightarrow> rat \<Rightarrow> rat \<Rightarrow> bool \<Rightarrow> rat" where
  "calculateCriterionScore actualValue idealValueUnused minPref maxPref isDataAvailable =
     (if \<not> isDataAvailable \<or> actualValue = Str ''N/A'' \<or> actualValue = Undefined
         \<or> actualValue = Null \<or> parseFloat_val actualValue = None
      then PENALTY_NO_DATA_IF_PREFERRED
      else case parseFloat_val actualValue of
             None \<Rightarrow> PENALTY_NO_DATA_IF_PREFERRED
           | Some numericActualValue \<Rightarrow>
               if numericActualValue \<ge> minPref \<and> numericActualValue \<le> maxPref
               then MAX_SCORE_PER_CRITERION
               else (let diff = (if numericActualValue < minPref
                                 then minPref - numericActualValue
                                 else numericActualValue - maxPref)
                     in max 0 (MAX_SCORE_PER_CRITERION - diff * PENALTY_OUT_OF_RANGE_FACTOR)))"

section \<open>Comfort score normalisation\<close>

text \<open>
  The raw score is a number or \<^verbatim>\<open>-Infinity\<close>; the two counts are JavaScript numbers
  holding integers.
\<close>

definition normalizeComfortScore :: "score \<Rightarrow> int \<Rightarrow> int \<Rightarrow> rat" where
  "normalizeComfortScore originalScore criteriaMetCount numSelectedPrefs =
     (if numSelectedPrefs = 0 then
        (case originalScore of
           NegInfinity \<Rightarrow> 0
         | Fin s \<Rightarrow>
             if s < PENALTY_NO_DATA_IF_PREFERRED * (3 / 2) then 0
             else if s > 250 then 1
             else if s > 150 then 8 / 10
             else if s > 50 then 6 / 10
             else if s \<ge> 0 then 4 / 10
             else 2 / 10)
      else
        (let maxPossibleScore = of_int numSelectedPrefs * MAX_SCORE_PER_CRITERION;
             minPossiblePenalizedScore = of_int numSelectedPrefs * PENALTY_NO_DATA_IF_PREFERRED
         in case originalScore of
              NegInfinity \<Rightarrow> 0
            | Fin s \<Rightarrow>
                if criteriaMetCount = numSelectedPrefs \<and> numSelectedPrefs > 0 then 1
                else if criteriaMetCount > 0
                then 5 / 10 + (of_int criteriaMetCount / of_int numSelectedPrefs) * (5 / 10)
                else (let range = maxPossibleScore - minPossiblePenalizedScore
                      in if range = 0 then 0
                         else (let normalized = (s - minPossiblePenalizedScore) / range;
                                   normalized = max 0 (min normalized 1)
                               in normalized * (4 / 10)))))"

section \<open>Feels-like lookup\<close>

record FeelsLikeEntry =
  ta :: rat
  feelsLike :: rat

text \<open>
  The table argument is \<open>None\<close> when the caller passes \<^verbatim>\<open>undefined\<close> or \<^verbatim>\<open>null\<close>.
  \<^verbatim>\<open>reduce\<close> without an initial value starts from the first entry and replaces the
  candidate only by a strictly closer entry.
\<close>

definition closer :: "rat \<Rightarrow> FeelsLikeEntry \<Rightarrow> FeelsLikeEntry \<Rightarrow> FeelsLikeEntry" where
  "closer numAmbientTemp prev_e curr_e =
     (if \<bar>ta curr_e - numAmbientTemp\<bar> < \<bar>ta prev_e - numAmbientTemp\<bar> then curr_e else prev_e)"

definition getFeelsLikeTemperature :: "jsval \<Rightarrow> FeelsLikeEntry list option \<Rightarrow> jsval" where
  "getFeelsLikeTemperature ambientTemp feelsLikeLookupData =
     (case feelsLikeLookupData of
        None \<Rightarrow> Str ''N/A''
      | Some [] \<Rightarrow> Str ''N/A''
      | Some (e # es) \<Rightarrow>
          (case parseFloat_val ambientTemp of
             None \<Rightarrow> Str ''N/A''
           | Some numAmbientTemp \<Rightarrow>
               if ambientTemp = Str ''N/A'' then Str ''N/A''
               else (let closest = foldl (closer numAmbientTemp) e es
                     in Num (toFixed 2 (feelsLike closest)))))"

section \<open>Configuration tables\<close>

record PreferenceRange =
  min_pref :: rat
  max_pref :: rat
  ideal :: rat

text \<open>
  An object used as a table is an association list in insertion order; a property read is
  \<^const>\<open>map_of\<close>. The literals \<^verbatim>\<open>25.1\<close> and \<^verbatim>\<open>22.9\<close> denote doubles.
\<close>

definition lightingThresholds :: "(string \<times> PreferenceRange) list" where
  "lightingThresholds =
     [(''dim'', \<lparr>min_pref = 0, max_pref = 150, ideal = 75\<rparr>),
      (''balanced'', \<lparr>min_pref = 151, max_pref = 500, ideal = 325\<rparr>),
      (''well-lit'', \<lparr>min_pref = 501, max_pref = 1000, ideal = 750\<rparr>),
      (''sunny-natural'', \<lparr>min_pref = 1001, max_pref = 10000, ideal = 1500\<rparr>)]"

definition noiseWorkTypeThresholds :: "(string \<times> PreferenceRange) list" where
  "noiseWorkTypeThresholds =
     [(''focus-work'', \<lparr>min_pref = 0, max_pref = 45, ideal = 40\<rparr>),
      (''relaxed-productivity'', \<lparr>min_pref = 40, max_pref = 50, ideal = 45\<rparr>),
      (''collaborative-work'', \<lparr>min_pref = 45, max_pref = 55, ideal = 50\<rparr>),
      (''break-relaxation'', \<lparr>min_pref = 0, max_pref = 48, ideal = 42\<rparr>)]"

definition temperatureThresholds :: "(string \<times> PreferenceRange) list" where
  "temperatureThresholds =
     [(''stable-comfortable'', \<lparr>min_pref = 23, max_pref = 25, ideal = 24\<rparr>),
      (''consistently-warm'', \<lparr>min_pref = toDouble (251 / 10), max_pref = 30, ideal = 27\<rparr>),
      (''slightly-cool'', \<lparr>min_pref = 18, max_pref = toDouble (229 / 10), ideal = 21\<rparr>)]"

text \<open>
  \<open>officeHoursContribution\<close> of each named period: the doubles that the literals
  \<^verbatim>\<open>0.4\<close> and \<^verbatim>\<open>0.1\<close> denote.
\<close>

definition timePeriodConfig :: "(string \<times> rat) list" where
  "timePeriodConfig =
     [(''Afternoon'', toDouble (4 / 10)), (''Early Morning'', toDouble (1 / 10)),
      (''Evening'', toDouble (1 / 10)), (''Morning'', toDouble (4 / 10)),
      (''Night'', 0), (''Late evening'', 0)]"

record AllThresholds =
  lighting :: "(string \<times> PreferenceRange) list"
  noise_thresholds :: "(string \<times> PreferenceRange) list"
  temperature_thresholds :: "(string \<times> PreferenceRange) list"

text \<open>The threshold tables as the loading page passes them to the aggregator.\<close>

definition callerThresholds :: AllThresholds where
  "callerThresholds =
     \<lparr>lighting = lightingThresholds, noise_thresholds = noiseWorkTypeThresholds,
      temperature_thresholds = temperatureThresholds\<rparr>"

section \<open>Zone readings\<close>

text \<open>
  One parsed row: the zone id, the time series (\<open>None\<close> is a \<^verbatim>\<open>null\<close> cell) and the
  average of its sensor; an average the parser did not set is \<^const>\<open>Undefined\<close>.
\<close>

record ZoneData =
  Zones :: string
  timeSeries :: "(string \<times> rat option) list"
  averageLux :: jsval
  averageDb :: jsval
  averageTemp :: jsval

record AllProcessedData =
  light_data :: "ZoneData list"
  noise_data :: "ZoneData list"
  temperature_data :: "ZoneData list"

section \<open>Duration predictors\<close>

definition digit_char :: "nat \<Rightarrow> char" where
  "digit_char n = ''0123456789'' ! (n mod 10)"

fun show_nat :: "nat \<Rightarrow> string" where
  "show_nat n = (if n < 10 then [digit_char n] else show_nat (n div 10) @ [digit_char n])"

declare show_nat.simps [simp del]

text \<open>
  \<open>predictIdealDuration\<close>: the time series is \<open>None\<close> when the zone has no reading of
  the sensor. The loop over the keys keeps the pair of counters
  \<open>(suitablePeriods, totalConsideredPeriods)\<close>.
\<close>

definition countPeriod ::
  "rat \<Rightarrow> rat \<Rightarrow> (string \<times> rat) list \<Rightarrow> nat \<times> nat \<Rightarrow> string \<times> rat option \<Rightarrow> nat \<times> nat" where
  "countPeriod minPref maxPref config acc entry =
     (case acc of (suitablePeriods, totalConsideredPeriods) \<Rightarrow>
      case entry of (periodName, val) \<Rightarrow>
        (case (map_of config periodName, val) of
           (Some officeHoursContribution, Some v) \<Rightarrow>
             if officeHoursContribution > 0
             then (if v \<ge> minPref \<and> v \<le> maxPref then suitablePeriods + 1 else suitablePeriods,
                   totalConsideredPeriods + 1)
             else acc
         | _ \<Rightarrow> acc))"

definition predictIdealDuration ::
  "(string \<times> rat option) list option \<Rightarrow> rat \<Rightarrow> rat \<Rightarrow> (string \<times> rat) list \<Rightarrow> string" where
  "predictIdealDuration timeSeriesArg minPref maxPref currentRelevantTimeConfig =
     (case timeSeriesArg of
        None \<Rightarrow> ''N/A (No time series data for duration)''
      | Some ts \<Rightarrow>
          if length ts = 0 then ''N/A (No time series data for duration)''
          else if currentRelevantTimeConfig = []
          then ''N/A (Time series format not directly compatible for this duration prediction type)''
          else
            (case foldl (countPeriod minPref maxPref currentRelevantTimeConfig) (0, 0) ts of
               (suitablePeriods, totalConsideredPeriods) \<Rightarrow>
                 if totalConsideredPeriods = 0 \<and> length ts > 0
                 then ''Data available, but not for primary work hours for duration check''
                 else if totalConsideredPeriods = 0
                 then ''N/A (No relevant time series data for duration)''
                 else
                   (let percentage =
                          (of_nat suitablePeriods / of_nat totalConsideredPeriods :: rat) * 100
                    in if percentage = 100 then ''Consistently throughout main periods''
                       else if percentage \<ge> 75 then ''Most of the main periods''
                       else if percentage \<ge> 50 then ''About half of the main periods''
                       else if percentage > 0 then ''Some of the main periods''
                       else ''Infrequently during main periods'')))"

text \<open>
  \<open>predictHourlyDuration\<close> is only ever called with its default arguments
  \<open>startHour = 8\<close>, \<open>endHour = 18\<close>, \<open>intervalHours = 1\<close>, so the loop runs over the
  hours 8 to 18.
\<close>

definition countHour ::
  "(string \<times> rat option) list \<Rightarrow> rat \<Rightarrow> rat \<Rightarrow> nat \<times> nat \<Rightarrow> nat \<Rightarrow> nat \<times> nat" where
  "countHour ts minPref maxPref acc hour =
     (case acc of (suitableHours, consideredHours) \<Rightarrow>
        (let hourKey = show_nat hour
         in (case map_of ts hourKey of
               Some (Some v) \<Rightarrow>
                 (if v \<ge> minPref \<and> v \<le> maxPref then suitableHours + 1 else suitableHours,
                  consideredHours + 1)
             | _ \<Rightarrow> (suitableHours, consideredHours + 1))))"

definition predictHourlyDuration ::
  "(string \<times> rat option) list option \<Rightarrow> rat \<Rightarrow> rat \<Rightarrow> string" where
  "predictHourlyDuration timeSeriesArg minPref maxPref =
     (let startHour = 8; endHour = 18; intervalHours = 1
      in case timeSeriesArg of
           None \<Rightarrow> ''N/A (No time series data for hourly duration)''
         | Some ts \<Rightarrow>
             if length ts = 0 then ''N/A (No time series data for hourly duration)''
             else
               (case foldl (countHour ts minPref maxPref) (0, 0) [startHour ..< Suc endHour] of
                  (suitableHours, consideredHours) \<Rightarrow>
                    if consideredHours = 0 then ''N/A (No relevant hourly data for duration)''
                    else if suitableHours = consideredHours
                    then ''Consistently from '' @ show_nat startHour @ '':00-'' @ show_nat endHour @ '':00''
                    else if suitableHours > 0
                    then ''Approximately '' @ show_nat (suitableHours * intervalHours)
                         @ '' hour(s) between '' @ show_nat startHour @ '':00-''
                         @ show_nat endHour @ '':00''
                    else ''Not typically within range between '' @ show_nat startHour @ '':00-''
                         @ show_nat endHour @ '':00''))"

section \<open>Aggregator and ranker\<close>

text \<open>
  The three per-criterion sub-objects of a scored zone (\<open>durationText\<close>, \<open>scores\<close>,
  \<open>metCriteria\<close>, \<open>targetRangesFromScript\<close>) share one shape; a field is \<open>None\<close>
  when the property was never assigned. A \<open>metCriteria\<close> flag is \<^verbatim>\<open>undefined\<close> when
  the zone is missing from the sensor's dataset, because \<^verbatim>\<open>undefined && ...\<close> is
  \<^verbatim>\<open>undefined\<close>.
\<close>

datatype jsflag = FlagUndefined | Flag bool

fun truthy :: "jsflag \<Rightarrow> bool" where
  "truthy FlagUndefined = False"
| "truthy (Flag b) = b"

record 'a Criteria =
  light_c :: "'a option"
  noise_c :: "'a option"
  temp_c :: "'a option"

definition emptyCriteria :: "'a Criteria" where
  "emptyCriteria = \<lparr>light_c = None, noise_c = None, temp_c = None\<rparr>"

record ScoredZone =
  zoneId :: string
  light :: jsval
  noise :: jsval
  temperature :: jsval
  feelsLikeTemp :: jsval
  originalComfortScore :: score
  comfortScore :: rat
  criteriaMetCount :: int
  zoneImage :: string
  durationText :: "string Criteria"
  scores :: "rat Criteria"
  metCriteria :: "jsflag Criteria"
  targetRangesFromScript :: "PreferenceRange option Criteria option"
  rank :: "string option"

text \<open>The placeholder pushed when no real zone is available; only the id varies.\<close>

definition placeholderSpot :: "string \<Rightarrow> ScoredZone" where
  "placeholderSpot zid =
     \<lparr>zoneId = zid,
      light = Str ''N/A'', noise = Str ''N/A'', temperature = Str ''N/A'',
      feelsLikeTemp = Str ''N/A'',
      originalComfortScore = NegInfinity, comfortScore = 0, criteriaMetCount = 0,
      zoneImage = ''Images/default-room.jpg'',
      durationText = emptyCriteria, scores = emptyCriteria, metCriteria = emptyCriteria,
      targetRangesFromScript = None,
      rank = Some ''Info Unavailable''\<rparr>"

text \<open>
  \<^verbatim>\<open>new Map(list.map(item => [item.Zones, item])).get(zoneName)\<close>: a later row with the
  same zone id replaces an earlier one.
\<close>

definition mapGet :: "ZoneData list \<Rightarrow> string \<Rightarrow> ZoneData option" where
  "mapGet rows zoneName = map_of (map (\<lambda>item. (Zones item, item)) (rev rows)) zoneName"

text \<open>
  \<^verbatim>\<open>[...new Set(xs)]\<close>: the elements in the order of their first occurrence.
\<close>

definition setOf :: "string list \<Rightarrow> string list" where
  "setOf xs = foldl (\<lambda>acc x. if x \<in> set acc then acc else acc @ [x]) [] xs"

definition allZoneNamesOf :: "AllProcessedData \<Rightarrow> string list" where
  "allZoneNamesOf allProcessedData =
     filter (\<lambda>z. z \<noteq> [])
       (setOf (map Zones (light_data allProcessedData)
               @ map Zones (noise_data allProcessedData)
               @ map Zones (temperature_data allProcessedData)))"

text \<open>
  \<^verbatim>\<open>pref ? table[pref] : null\<close>: a missing or empty preference, or one that is not a
  key of the table, selects no range.
\<close>

definition targetRange :: "string option \<Rightarrow> (string \<times> PreferenceRange) list \<Rightarrow> PreferenceRange option" where
  "targetRange pref table =
     (case pref of None \<Rightarrow> None | Some p \<Rightarrow> if p = [] then None else map_of table p)"

text \<open>\<^verbatim>\<open>table[key]?.min || dflt\<close>.\<close>

definition minOr :: "(string \<times> PreferenceRange) list \<Rightarrow> string \<Rightarrow> rat \<Rightarrow> rat" where
  "minOr table key dflt =
     (case map_of table key of
        None \<Rightarrow> dflt
      | Some r \<Rightarrow> if min_pref r = 0 then dflt else min_pref r)"

definition zoneImageFor :: "jsval \<Rightarrow> string" where
  "zoneImageFor currentAverageLux =
     (case currentAverageLux of
        Num lux \<Rightarrow>
          if lux \<ge> minOr lightingThresholds ''sunny-natural'' 1001
          then ''Images/sunny-office-space.jpg''
          else if lux \<ge> minOr lightingThresholds ''well-lit'' 501
          then ''Images/Well-lit-home-office.webp''
          else if lux \<ge> minOr lightingThresholds ''balanced'' 151
          then ''Images/Balanced-light-office-room.webp''
          else if lux \<ge> minOr lightingThresholds ''dim'' 0
          then ''Images/Dim-lit-room.jpg''
          else ''Images/default-room.jpg''
      | _ \<Rightarrow> ''Images/default-room.jpg'')"

text \<open>
  \<^verbatim>\<open>zoneFull && typeof avg === 'number' && !isNaN(avg)\<close>, and the \<open>met\<close> flag
  \<^verbatim>\<open>isDataAvailable && avg >= min && avg <= max\<close>.
\<close>

definition isAvailable :: "ZoneData option \<Rightarrow> jsval \<Rightarrow> jsflag" where
  "isAvailable zoneFull avg =
     (case zoneFull of
        None \<Rightarrow> FlagUndefined
      | Some z \<Rightarrow> Flag (case avg of Num v \<Rightarrow> True | _ \<Rightarrow> False))"

definition metFlag :: "jsflag \<Rightarrow> jsval \<Rightarrow> PreferenceRange \<Rightarrow> jsflag" where
  "metFlag isDataAvailable avg targetRng =
     (if truthy isDataAvailable
      then (case avg of
              Num v \<Rightarrow> Flag (v \<ge> min_pref targetRng \<and> v \<le> max_pref targetRng)
            | _ \<Rightarrow> Flag False)
      else isDataAvailable)"

text \<open>\<^verbatim>\<open>x ?? 'N/A'\<close>.\<close>

definition orNA :: "jsval \<Rightarrow> jsval" where
  "orNA x = (if x = Undefined \<or> x = Null then Str ''N/A'' else x)"

definition optAverage :: "(ZoneData \<Rightarrow> jsval) \<Rightarrow> ZoneData option \<Rightarrow> jsval" where
  "optAverage field zoneFull = (case zoneFull of None \<Rightarrow> Undefined | Some z \<Rightarrow> field z)"

text \<open>\<^verbatim>\<open>if (metCriteria.x) criteriaMetCount++\<close>, for a criterion that may not be selected.\<close>

definition metCount :: "jsflag option \<Rightarrow> int" where
  "metCount m = (case m of Some f \<Rightarrow> if truthy f then 1 else 0 | None \<Rightarrow> 0)"

text \<open>The body of the loop over all zone names: one scored zone per name.\<close>

definition scoreZone ::
  "PreferenceRange option \<Rightarrow> PreferenceRange option \<Rightarrow> PreferenceRange option \<Rightarrow>
   AllProcessedData \<Rightarrow> FeelsLikeEntry list option \<Rightarrow> string \<Rightarrow> ScoredZone" where
  "scoreZone targetLightRange targetNoiseRange targetTemperatureRange allProcessedData
       feelsLikeLookupData zoneName =
     (let zoneLightFull = mapGet (light_data allProcessedData) zoneName;
          zoneNoiseFull = mapGet (noise_data allProcessedData) zoneName;
          zoneTempFull = mapGet (temperature_data allProcessedData) zoneName;
          avgLuxVal = optAverage averageLux zoneLightFull;
          avgDbVal = optAverage averageDb zoneNoiseFull;
          currentAverageTemp = optAverage averageTemp zoneTempFull;
          isLightDataAvailable = isAvailable zoneLightFull avgLuxVal;
          isNoiseDataAvailable = isAvailable zoneNoiseFull avgDbVal;
          isTempDataAvailable = isAvailable zoneTempFull currentAverageTemp;
          lightScore = (case targetLightRange of
                          None \<Rightarrow> 0
                        | Some r \<Rightarrow> calculateCriterionScore avgLuxVal (ideal r) (min_pref r)
                                     (max_pref r) (truthy isLightDataAvailable));
          noiseScore = (case targetNoiseRange of
                          None \<Rightarrow> 0
                        | Some r \<Rightarrow> calculateCriterionScore avgDbVal (ideal r) (min_pref r)
                                     (max_pref r) (truthy isNoiseDataAvailable));
          tempScore = (case targetTemperatureRange of
                         None \<Rightarrow> 0
                       | Some r \<Rightarrow> calculateCriterionScore currentAverageTemp (ideal r)
                                    (min_pref r) (max_pref r) (truthy isTempDataAvailable));
          metLight = map_option (metFlag isLightDataAvailable avgLuxVal) targetLightRange;
          metNoise = map_option (metFlag isNoiseDataAvailable avgDbVal) targetNoiseRange;
          metTemp = map_option (metFlag isTempDataAvailable currentAverageTemp)
                      targetTemperatureRange;
          criteriaMetCount = metCount metLight + metCount metNoise + metCount metTemp;
          selected = (\<lambda>t. case t of Some r \<Rightarrow> 1 | None \<Rightarrow> (0::int));
          originalTotalScore =
            (case targetLightRange of None \<Rightarrow> 0 | Some r \<Rightarrow> lightScore)
            + (case targetNoiseRange of None \<Rightarrow> 0 | Some r \<Rightarrow> noiseScore)
            + (case targetTemperatureRange of None \<Rightarrow> 0 | Some r \<Rightarrow> tempScore);
          numSelectedPreferences =
            selected targetLightRange + selected targetNoiseRange + selected targetTemperatureRange
      in \<lparr>zoneId = zoneName,
          light = orNA avgLuxVal,
          noise = orNA avgDbVal,
          temperature = orNA currentAverageTemp,
          feelsLikeTemp = getFeelsLikeTemperature currentAverageTemp feelsLikeLookupData,
          originalComfortScore = Fin originalTotalScore,
          comfortScore = normalizeComfortScore (Fin originalTotalScore) criteriaMetCount
                           numSelectedPreferences,
          criteriaMetCount = criteriaMetCount,
          zoneImage = zoneImageFor avgLuxVal,
          durationText =
            \<lparr>light_c = map_option (\<lambda>r. predictIdealDuration (map_option timeSeries zoneLightFull)
                                      (min_pref r) (max_pref r) timePeriodConfig) targetLightRange,
             noise_c = map_option (\<lambda>r. predictHourlyDuration (map_option timeSeries zoneNoiseFull)
                                      (min_pref r) (max_pref r)) targetNoiseRange,
             temp_c = map_option (\<lambda>r. predictHourlyDuration (map_option timeSeries zoneTempFull)
                                     (min_pref r) (max_pref r)) targetTemperatureRange\<rparr>,
          scores = \<lparr>light_c = Some lightScore, noise_c = Some noiseScore, temp_c = Some tempScore\<rparr>,
          metCriteria = \<lparr>light_c = metLight, noise_c = metNoise, temp_c = metTemp\<rparr>,
          targetRangesFromScript =
            Some \<lparr>light_c = Some targetLightRange, noise_c = Some targetNoiseRange,
                  temp_c = Some targetTemperatureRange\<rparr>,
          rank = None\<rparr>)"

text \<open>
  The comparator handed to \<^verbatim>\<open>Array.prototype.sort\<close>: a negative result puts \<open>a\<close>
  first. The sort is stable, so it is modelled by insertion from the right, which leaves
  elements that compare equal in their original order.
\<close>

definition compareSpots :: "ScoredZone \<Rightarrow> ScoredZone \<Rightarrow> rat" where
  "compareSpots a b =
     (if comfortScore b \<noteq> comfortScore a then comfortScore b - comfortScore a
      else of_int (criteriaMetCount b - criteriaMetCount a))"

fun insertSpot :: "ScoredZone \<Rightarrow> ScoredZone list \<Rightarrow> ScoredZone list" where
  "insertSpot a [] = [a]"
| "insertSpot a (b # bs) = (if compareSpots a b \<le> 0 then a # b # bs else b # insertSpot a bs)"

definition sortSpots :: "ScoredZone list \<Rightarrow> ScoredZone list" where
  "sortSpots spots = foldr insertSpot spots []"

text \<open>\<^verbatim>\<open>String.prototype.includes\<close>.\<close>

fun str_includes :: "string \<Rightarrow> string \<Rightarrow> bool" where
  "str_includes [] sub = (sub = [])"
| "str_includes (c # cs) sub = (take (length sub) (c # cs) = sub \<or> str_includes cs sub)"

definition assignRank :: "nat \<Rightarrow> ScoredZone \<Rightarrow> ScoredZone" where
  "assignRank index spot =
     (if zoneId spot \<noteq> [] \<and> \<not> str_includes (zoneId spot) ''(No Data)''
         \<and> \<not> str_includes (zoneId spot) ''(Unavailable)'' \<and> \<not> str_includes (zoneId spot) ''(Fallback)''
      then (if index = 0 then spot\<lparr>rank := Some ''Best Match''\<rparr>
            else if index = 1 then spot\<lparr>rank := Some ''2nd Choice''\<rparr>
            else if index = 2 then spot\<lparr>rank := Some ''3rd Choice''\<rparr>
            else spot)
      else spot\<lparr>rank := Some ''Info Unavailable''\<rparr>)"

text \<open>
  The padding loop
  \<^verbatim>\<open>while (finalTopSpots.length < 3 && finalTopSpots.length < allZoneNames.length)\<close>.
\<close>

function padFallback :: "nat \<Rightarrow> ScoredZone list \<Rightarrow> ScoredZone list" where
  "padFallback numZoneNames finalTopSpots =
     (if length finalTopSpots < 3 \<and> length finalTopSpots < numZoneNames
      then padFallback numZoneNames
             (finalTopSpots
              @ [placeholderSpot (''Zone '' @ show_nat (length finalTopSpots + 1) @ '' (Fallback)'')])
      else finalTopSpots)"
  by pat_completeness auto
termination
  by (relation "measure (\<lambda>(n, spots). 3 - length spots)") auto

declare padFallback.simps [simp del]

definition calculateFinalRecommendations ::
  "string option \<Rightarrow> string option \<Rightarrow> string option \<Rightarrow> AllProcessedData \<Rightarrow> AllThresholds \<Rightarrow>
   FeelsLikeEntry list option \<Rightarrow> ScoredZone list" where
  "calculateFinalRecommendations lightingPref spaceUsagePref temperaturePref allProcessedData
       allThresholds feelsLikeLookupData =
     (let targetLightRange = targetRange lightingPref (lighting allThresholds);
          targetNoiseRange = targetRange spaceUsagePref (noise_thresholds allThresholds);
          targetTemperatureRange = targetRange temperaturePref (temperature_thresholds allThresholds);
          allZoneNames = allZoneNamesOf allProcessedData
      in if length allZoneNames = 0
         then map (\<lambda>i. placeholderSpot (''Zone '' @ show_nat (i + 1) @ '' (No Data)'')) [0 ..< 3]
         else
           (let scoredSpots = map (scoreZone targetLightRange targetNoiseRange targetTemperatureRange
                                     allProcessedData feelsLikeLookupData) allZoneNames;
                sorted = sortSpots scoredSpots;
                top = take 3 sorted;
                ranked = map (\<lambda>(index, spot). assignRank index spot) (zip [0 ..< length top] top);
                finalTopSpots = padFallback (length allZoneNames) ranked
            in if length allZoneNames = 0 \<and> length finalTopSpots = 0
               then map (\<lambda>i. placeholderSpot (''Zone '' @ show_nat (i + 1) @ '' (Unavailable)''))
                      [0 ..< 3]
               else finalTopSpots))"




section \<open>String built-ins used by the CSV parsers\<close>

text \<open>\<^verbatim>\<open>s.split(/\r\n|\n/)\<close>: a lone carriage return does not end a line.\<close>

fun splitLines :: "string \<Rightarrow> string list" where
  "splitLines [] = [[]]"
| "splitLines [c] = (if c = CHR 0x0A then [[], []] else [[c]])"
| "splitLines (c # d # ds) =
     (if c = CHR 0x0A then [] # splitLines (d # ds)
      else if c = CHR 0x0D \<and> d = CHR 0x0A then [] # splitLines ds
      else (case splitLines (d # ds) of
              [] \<Rightarrow> [[c]]
            | l # ls \<Rightarrow> (c # l) # ls))"

text \<open>\<^verbatim>\<open>s.split(',')\<close>.\<close>

fun splitComma :: "string \<Rightarrow> string list" where
  "splitComma [] = [[]]"
| "splitComma (c # cs) =
     (if c = CHR '','' then [] # splitComma cs
      else (case splitComma cs of
              [] \<Rightarrow> [[c]]
            | l # ls \<Rightarrow> (c # l) # ls))"

definition cells :: "string \<Rightarrow> string list" where
  "cells line = map trim (splitComma line)"

text \<open>\<^verbatim>\<open>xs.indexOf(x)\<close>; \<open>None\<close> stands for \<open>-1\<close>.\<close>

fun indexOf :: "string list \<Rightarrow> string \<Rightarrow> nat option" where
  "indexOf [] x = None"
| "indexOf (y # ys) x = (if y = x then Some 0 else map_option Suc (indexOf ys x))"

text \<open>\<^verbatim>\<open>xs[i]\<close>; \<open>None\<close> stands for \<^verbatim>\<open>undefined\<close>.\<close>

definition elemAt :: "string list \<Rightarrow> nat \<Rightarrow> string option" where
  "elemAt xs i = (if i < length xs then Some (xs ! i) else None)"

text \<open>
  \<^verbatim>\<open>String.prototype.toLowerCase\<close> on 8-bit characters: the ASCII capitals and the
  capitals of Latin-1.
\<close>

definition lowerChar :: "char \<Rightarrow> char" where
  "lowerChar c =
     (let n = (of_char c :: nat)
      in if (65 \<le> n \<and> n \<le> 90) \<or> (192 \<le> n \<and> n \<le> 222 \<and> n \<noteq> 215)
         then char_of (n + 32) else c)"

definition toLowerCase :: "string \<Rightarrow> string" where
  "toLowerCase s = map lowerChar s"

text \<open>
  \<^verbatim>\<open>parseInt\<close> without a radix: leading white space, a sign, then hexadecimal digits
  after \<^verbatim>\<open>0x\<close> or decimal digits otherwise; \<open>None\<close> stands for \<^verbatim>\<open>NaN\<close>.
\<close>

definition hex_val :: "char \<Rightarrow> nat option" where
  "hex_val c = map_of (zip ''0123456789abcdefABCDEF''
                          ([0 ..< 16] @ [10 ..< 16])) c"

definition parseInt :: "string \<Rightarrow> int option" where
  "parseInt s =
     (let (neg, t) = take_sign (dropWhile is_ws s);
          isHex = (take 2 t = ''0x'' \<or> take 2 t = ''0X'');
          ds = (if isHex then takeWhile (\<lambda>c. hex_val c \<noteq> None) (drop 2 t)
                else takeWhile is_digit t);
          n = (if isHex then foldl (\<lambda>acc c. 16 * acc + the (hex_val c)) 0 ds
               else digits_val ds)
      in if ds = [] then None else Some (if neg then - int n else int n))"

text \<open>
  A property assignment \<^verbatim>\<open>obj[key] = v\<close> on a plain object: an existing key keeps its
  place, a new key is added last. Assigning to \<^verbatim>\<open>__proto__\<close> creates no own property.
  \<^verbatim>\<open>Object.keys\<close> lists the array-index keys first, in ascending numeric order, then the
  other keys in insertion order.
\<close>

definition objSet :: "(string \<times> 'v) list \<Rightarrow> string \<Rightarrow> 'v \<Rightarrow> (string \<times> 'v) list" where
  "objSet obj key v = (if key = ''__proto__'' then obj else AList.update key v obj)"

definition isArrayIndex :: "string \<Rightarrow> bool" where
  "isArrayIndex s =
     (s \<noteq> [] \<and> list_all is_digit s \<and> (s = ''0'' \<or> hd s \<noteq> CHR ''0'')
      \<and> int (digits_val s) \<le> 4294967294)"

definition objectKeys :: "(string \<times> 'v) list \<Rightarrow> string list" where
  "objectKeys obj =
     sort_key digits_val (filter isArrayIndex (map fst obj))
     @ filter (\<lambda>k. \<not> isArrayIndex k) (map fst obj)"

datatype js_error = TypeError

text \<open>\<^verbatim>\<open>!csvString\<close>.\<close>

fun falsy :: "jsval \<Rightarrow> bool" where
  "falsy (Num r) = (r = 0)"
| "falsy NaN = True"
| "falsy (Str s) = (s = [])"
| "falsy Undefined = True"
| "falsy Null = True"

section \<open>Parser for rows of named periods\<close>

text \<open>
  One step of \<^verbatim>\<open>timeColumns.forEach\<close>: the state is the time series built so far,
  \<open>weightedSum\<close> and \<open>totalWeight\<close>.
\<close>

definition periodStep ::
  "string list \<Rightarrow> string list \<Rightarrow> (string \<times> rat option) list \<times> rat \<times> rat \<Rightarrow> string
     \<Rightarrow> (string \<times> rat option) list \<times> rat \<times> rat" where
  "periodStep headers vals acc timeColumn =
     (case acc of (timeSeriesAcc, weightedSum, totalWeight) \<Rightarrow>
      case indexOf headers timeColumn of
        None \<Rightarrow> acc
      | Some actualIndex \<Rightarrow>
          (case elemAt vals actualIndex of
             None \<Rightarrow> (objSet timeSeriesAcc timeColumn None, weightedSum, totalWeight)
           | Some rawValue \<Rightarrow>
               (case parseFloat rawValue of
                  None \<Rightarrow> (objSet timeSeriesAcc timeColumn None, weightedSum, totalWeight)
                | Some numericValue \<Rightarrow>
                    if trim rawValue \<noteq> []
                    then (case map_of timePeriodConfig timeColumn of
                            None \<Rightarrow> (objSet timeSeriesAcc timeColumn (Some numericValue),
                                      weightedSum, totalWeight)
                          | Some officeHoursContribution \<Rightarrow>
                              if officeHoursContribution > 0
                              then (objSet timeSeriesAcc timeColumn (Some numericValue),
                                    dadd weightedSum (dmul numericValue officeHoursContribution),
                                    dadd totalWeight officeHoursContribution)
                              else (objSet timeSeriesAcc timeColumn (Some numericValue),
                                    weightedSum, totalWeight))
                    else (objSet timeSeriesAcc timeColumn None, weightedSum, totalWeight))))"

text \<open>The body of the loop over the data lines; \<open>None\<close> is a skipped row.\<close>

definition descriptiveRow ::
  "string list \<Rightarrow> nat \<Rightarrow> string list \<Rightarrow> string \<Rightarrow> string list \<Rightarrow> ZoneData option" where
  "descriptiveRow headers zoneColumnIndex timeColumns dataType vals =
     (if length vals \<noteq> length headers then None
      else case elemAt vals zoneColumnIndex of
             None \<Rightarrow> None
           | Some zoneName \<Rightarrow>
               if zoneName = [] then None
               else (case foldl (periodStep headers vals) ([], 0, 0) timeColumns of
                       (timeSeriesAcc, weightedSum, totalWeight) \<Rightarrow>
                         Some \<lparr>Zones = zoneName, timeSeries = timeSeriesAcc,
                               averageLux =
                                 (if dataType = ''Light''
                                  then (if totalWeight > 0
                                        then Num (of_int (round (ddiv weightedSum totalWeight)))
                                        else Str ''N/A'')
                                  else Undefined),
                               averageDb = Undefined, averageTemp = Undefined\<rparr>))"

text \<open>\<^verbatim>\<open>headers.filter((h, index) => index !== skip && h.trim() !== "")\<close>.\<close>

definition otherColumns :: "string list \<Rightarrow> nat \<Rightarrow> string list" where
  "otherColumns headers skip =
     map snd (filter (\<lambda>(index, h). index \<noteq> skip \<and> trim h \<noteq> []) (enumerate 0 headers))"

text \<open>
  The \<^verbatim>\<open>try\<close> block: \<open>Inl\<close> is a thrown exception. Calling \<^verbatim>\<open>trim\<close> on anything but
  a string throws a \<^verbatim>\<open>TypeError\<close>.
\<close>

definition processDataWithDescriptiveTimes_try ::
  "jsval \<Rightarrow> string \<Rightarrow> string \<Rightarrow> js_error + ZoneData list" where
  "processDataWithDescriptiveTimes_try csvString zoneColumnNameUnused dataType =
     (case csvString of
        Str s \<Rightarrow>
          (case splitLines (trim s) of
             headerLine # l # ls \<Rightarrow>
               (let headers = cells headerLine
                in case indexOf headers ''Zones'' of
                     None \<Rightarrow> Inr []
                   | Some zoneColumnIndex \<Rightarrow>
                       (let timeColumns = otherColumns headers zoneColumnIndex
                        in Inr (List.map_filter
                                  (\<lambda>line. descriptiveRow headers zoneColumnIndex timeColumns
                                             dataType (cells line))
                                  (l # ls))))
           | _ \<Rightarrow> Inr [])
      | _ \<Rightarrow> Inl TypeError)"

definition processDataWithDescriptiveTimes :: "jsval \<Rightarrow> string \<Rightarrow> string \<Rightarrow> ZoneData list" where
  "processDataWithDescriptiveTimes csvString zoneColumnNameUnused dataType =
     (case processDataWithDescriptiveTimes_try csvString zoneColumnNameUnused dataType of
        Inl error \<Rightarrow> []
      | Inr processedData \<Rightarrow> processedData)"

definition processLightData :: "jsval \<Rightarrow> ZoneData list" where
  "processLightData csvString = processDataWithDescriptiveTimes csvString ''Zones'' ''Light''"

text \<open>
  The average as the specification words it: over the periods with a positive configured
  weight and a numeric cell, the sum of value times weight divided by the sum of the
  weights; \<^verbatim>\<open>'N/A'\<close> when there is no such period.
\<close>

definition weightedCell :: "string list \<Rightarrow> string list \<Rightarrow> string \<Rightarrow> (rat \<times> rat) list" where
  "weightedCell headers vals timeColumn =
     (case (indexOf headers timeColumn, map_of timePeriodConfig timeColumn) of
        (Some i, Some w) \<Rightarrow>
          (case elemAt vals i of
             Some rawValue \<Rightarrow>
               (case parseFloat rawValue of
                  Some v \<Rightarrow> if trim rawValue \<noteq> [] \<and> w > 0 then [(v, w)] else []
                | None \<Rightarrow> [])
           | None \<Rightarrow> [])
      | _ \<Rightarrow> [])"

definition weightedPeriods :: "string list \<Rightarrow> string list \<Rightarrow> (rat \<times> rat) list" where
  "weightedPeriods headers vals =
     concat (map (weightedCell headers vals)
               (otherColumns headers (case indexOf headers ''Zones'' of Some i \<Rightarrow> i | None \<Rightarrow> 0)))"

definition weightedAverage :: "(rat \<times> rat) list \<Rightarrow> rat" where
  "weightedAverage ps = (\<Sum>(v, w) \<leftarrow> ps. v * w) / (\<Sum>(v, w) \<leftarrow> ps. w)"

text \<open>
  The same quotient as the script computes it: both sums built from left to right in double
  arithmetic, the double quotient cut by \<^verbatim>\<open>Math.round\<close>.
\<close>

definition doubleSum :: "rat list \<Rightarrow> rat" where
  "doubleSum xs = foldl dadd 0 xs"

definition roundedAverage :: "(rat \<times> rat) list \<Rightarrow> jsval" where
  "roundedAverage ps =
     (if ps = [] then Str ''N/A''
      else Num (of_int (round (ddiv (doubleSum (map (\<lambda>(v, w). dmul v w) ps))
                                    (doubleSum (map snd ps))))))"

section \<open>Parser for zone rows with hourly columns\<close>

text \<open>
  One step of \<^verbatim>\<open>hourHeaders.forEach((hourStr, index) => ...)\<close>: the state is the time
  series built so far, \<open>officeHoursSum\<close> and \<open>officeHoursCount\<close>.
\<close>

definition hourStep ::
  "string list \<Rightarrow> (string \<times> rat option) list \<times> rat \<times> nat \<Rightarrow> nat \<times> string
     \<Rightarrow> (string \<times> rat option) list \<times> rat \<times> nat" where
  "hourStep dataValues acc entry =
     (case acc of (timeSeriesAcc, officeHoursSum, officeHoursCount) \<Rightarrow>
      case entry of (index, hourStr) \<Rightarrow>
        (case parseInt hourStr of
           None \<Rightarrow> acc
         | Some hour \<Rightarrow>
             if hour < 0 \<or> hour > 23 then acc
             else (case elemAt dataValues index of
                     None \<Rightarrow> (objSet timeSeriesAcc hourStr None, officeHoursSum, officeHoursCount)
                   | Some valStr \<Rightarrow>
                       (case parseFloat valStr of
                          None \<Rightarrow> (objSet timeSeriesAcc hourStr None, officeHoursSum,
                                    officeHoursCount)
                        | Some numericValue \<Rightarrow>
                            if trim valStr \<noteq> []
                            then (if hour \<ge> 8 \<and> hour \<le> 18
                                  then (objSet timeSeriesAcc hourStr (Some numericValue),
                                        dadd officeHoursSum numericValue, officeHoursCount + 1)
                                  else (objSet timeSeriesAcc hourStr (Some numericValue),
                                        officeHoursSum, officeHoursCount))
                            else (objSet timeSeriesAcc hourStr None, officeHoursSum,
                                  officeHoursCount)))))"

text \<open>\<^verbatim>\<open>count > 0 ? parseFloat((sum / count).toFixed(1)) : 'N/A'\<close>.\<close>

definition officeAverage :: "rat \<Rightarrow> nat \<Rightarrow> jsval" where
  "officeAverage officeHoursSum officeHoursCount =
     (if officeHoursCount > 0
      then Num (toDouble (toFixed 1 (ddiv officeHoursSum (of_nat officeHoursCount))))
      else Str ''N/A'')"

text \<open>
  The loop over the data lines. A row is skipped when its field count differs from the
  header's, when it has no zone name, or when a target zone is given and the row is another
  zone; the loop stops after the row of the target zone.
\<close>

fun zoneRows :: "string list \<Rightarrow> string option \<Rightarrow> string \<Rightarrow> string list \<Rightarrow> ZoneData list" where
  "zoneRows headers targetZoneId dataType [] = []"
| "zoneRows headers targetZoneId dataType (line # rest) =
     (let currentRowValues = cells line
      in if length currentRowValues \<noteq> length headers
         then zoneRows headers targetZoneId dataType rest
         else (case currentRowValues of
                 [] \<Rightarrow> zoneRows headers targetZoneId dataType rest
               | currentZoneId # dataValues \<Rightarrow>
                   if currentZoneId = [] then zoneRows headers targetZoneId dataType rest
                   else if (case targetZoneId of
                              None \<Rightarrow> False
                            | Some t \<Rightarrow> t \<noteq> [] \<and> currentZoneId \<noteq> t)
                   then zoneRows headers targetZoneId dataType rest
                   else
                     (case foldl (hourStep dataValues) ([], 0, 0)
                             (enumerate 0 (tl headers)) of
                        (timeSeriesAcc, officeHoursSum, officeHoursCount) \<Rightarrow>
                          (let result =
                                 \<lparr>Zones = currentZoneId, timeSeries = timeSeriesAcc,
                                  averageLux = Undefined, averageDb = Undefined,
                                  averageTemp =
                                    (if dataType = ''Temperature''
                                     then officeAverage officeHoursSum officeHoursCount
                                     else Undefined)\<rparr>
                           in if (case targetZoneId of
                                    None \<Rightarrow> False
                                  | Some t \<Rightarrow> t \<noteq> [] \<and> currentZoneId = t)
                              then [result]
                              else result # zoneRows headers targetZoneId dataType rest))))"

definition processZoneRowHourlyData_try ::
  "jsval \<Rightarrow> string option \<Rightarrow> string \<Rightarrow> js_error + ZoneData list" where
  "processZoneRowHourlyData_try csvString targetZoneId dataType =
     (case csvString of
        Str s \<Rightarrow>
          (case splitLines (trim s) of
             headerLine # l # ls \<Rightarrow>
               (let headers = cells headerLine;
                    hourHeaders = tl headers
                in if length hourHeaders = 0 then Inr []
                   else Inr (zoneRows headers targetZoneId dataType (l # ls)))
           | _ \<Rightarrow> Inr [])
      | _ \<Rightarrow> Inl TypeError)"

definition processZoneRowHourlyData :: "jsval \<Rightarrow> string option \<Rightarrow> string \<Rightarrow> ZoneData list" where
  "processZoneRowHourlyData csvString targetZoneId dataType =
     (if falsy csvString then []
      else case processZoneRowHourlyData_try csvString targetZoneId dataType of
             Inl e \<Rightarrow> []
           | Inr allProcessedData \<Rightarrow> allProcessedData)"

definition processTemperatureData :: "jsval \<Rightarrow> ZoneData list" where
  "processTemperatureData csvString = processZoneRowHourlyData csvString None ''Temperature''"

section \<open>Parser for hour rows with zone columns\<close>

record ZoneAccumulator =
  acc_timeSeries :: "(string \<times> rat option) list"
  acc_officeHoursSum :: rat
  acc_officeHoursCount :: nat

text \<open>
  The search for the header row in the first five lines: the index and the fields of the
  first line that has more than one field, one of them \<^verbatim>\<open>hour\<close> in any letter case.
\<close>

fun findHeaderRow :: "nat \<Rightarrow> string list \<Rightarrow> (nat \<times> string list) option" where
  "findHeaderRow i [] = None"
| "findHeaderRow i (line # rest) =
     (if i < 5
      then (let headers = cells line
            in if ''hour'' \<in> set (map toLowerCase headers) \<and> length headers > 1
               then Some (i, headers)
               else findHeaderRow (i + 1) rest)
      else None)"

text \<open>\<^verbatim>\<open>headers.findIndex(h => h.toLowerCase() === 'hour')\<close>.\<close>

definition findHourColumn :: "string list \<Rightarrow> nat option" where
  "findHourColumn headers = indexOf (map toLowerCase headers) ''hour''"

text \<open>
  One step of \<^verbatim>\<open>zoneColumns.forEach\<close> inside the loop over the hour rows. A zone whose
  name creates no own property of \<open>allZoneData\<close> is read from the prototype in the script
  and never listed by \<^verbatim>\<open>Object.keys\<close>; the model leaves the table unchanged for it.
\<close>

definition zoneStep ::
  "string list \<Rightarrow> string list \<Rightarrow> int \<Rightarrow> (string \<times> ZoneAccumulator) list \<Rightarrow> string
     \<Rightarrow> (string \<times> ZoneAccumulator) list" where
  "zoneStep headers vals hour allZoneData zoneName =
     (case indexOf headers zoneName of
        None \<Rightarrow> allZoneData
      | Some zoneIndexInHeader \<Rightarrow>
          (case map_of allZoneData zoneName of
             None \<Rightarrow> allZoneData
           | Some zd \<Rightarrow>
               (let hourKey = show_nat (nat hour);
                    isOfficeHour = (hour \<ge> 8 \<and> hour \<le> 18);
                    numeric = (case elemAt vals zoneIndexInHeader of
                                 None \<Rightarrow> None
                               | Some valStr \<Rightarrow>
                                   if trim valStr \<noteq> [] then parseFloat valStr else None)
                in case numeric of
                     None \<Rightarrow>
                       objSet allZoneData zoneName
                         (zd\<lparr>acc_timeSeries := objSet (acc_timeSeries zd) hourKey None\<rparr>)
                   | Some numericValue \<Rightarrow>
                       objSet allZoneData zoneName
                         (if isOfficeHour
                          then zd\<lparr>acc_timeSeries :=
                                     objSet (acc_timeSeries zd) hourKey (Some numericValue),
                                   acc_officeHoursSum := dadd (acc_officeHoursSum zd) numericValue,
                                   acc_officeHoursCount := acc_officeHoursCount zd + 1\<rparr>
                          else zd\<lparr>acc_timeSeries :=
                                     objSet (acc_timeSeries zd) hourKey (Some numericValue)\<rparr>))))"

text \<open>One data line of the hour-row layout.\<close>

definition hourRow ::
  "string list \<Rightarrow> nat \<Rightarrow> string list \<Rightarrow> (string \<times> ZoneAccumulator) list \<Rightarrow> string
     \<Rightarrow> (string \<times> ZoneAccumulator) list" where
  "hourRow headers hourColumnIndex zoneColumns allZoneData line =
     (let vals = cells line
      in if length vals \<noteq> length headers then allZoneData
         else (case elemAt vals hourColumnIndex of
                 None \<Rightarrow> allZoneData
               | Some hourStr \<Rightarrow>
                   (case parseInt hourStr of
                      None \<Rightarrow> allZoneData
                    | Some hour \<Rightarrow>
                        if hour < 0 \<or> hour > 23 then allZoneData
                        else foldl (zoneStep headers vals hour) allZoneData zoneColumns)))"

definition zoneResult :: "string \<Rightarrow> (string \<times> ZoneAccumulator) list \<Rightarrow> string \<Rightarrow> ZoneData list" where
  "zoneResult dataType allZoneData zoneName =
     (case map_of allZoneData zoneName of
        None \<Rightarrow> []
      | Some zd \<Rightarrow>
          (let average = officeAverage (acc_officeHoursSum zd) (acc_officeHoursCount zd)
           in [\<lparr>Zones = zoneName, timeSeries = acc_timeSeries zd,
                averageLux = Undefined,
                averageDb = (if dataType = ''Noise'' then average else Undefined),
                averageTemp = (if dataType = ''Temperature'' then average else Undefined)\<rparr>]))"

definition processZoneColumnHourlyData_try :: "jsval \<Rightarrow> string \<Rightarrow> js_error + ZoneData list" where
  "processZoneColumnHourlyData_try csvString dataType =
     (case csvString of
        Str s \<Rightarrow>
          (let lines = splitLines (trim s)
           in case findHeaderRow 0 lines of
                None \<Rightarrow> Inr []
              | Some (headerRowIndex, headers) \<Rightarrow>
                  if length lines < headerRowIndex + 2 then Inr []
                  else (case findHourColumn headers of
                          None \<Rightarrow> Inr []
                        | Some hourColumnIndex \<Rightarrow>
                            (let zoneColumns = otherColumns headers hourColumnIndex
                             in if length zoneColumns = 0 then Inr []
                                else
                                  (let initial =
                                         foldl (\<lambda>obj zoneName. objSet obj zoneName
                                                  \<lparr>acc_timeSeries = [], acc_officeHoursSum = 0,
                                                   acc_officeHoursCount = 0\<rparr>)
                                           [] zoneColumns;
                                       allZoneData =
                                         foldl (hourRow headers hourColumnIndex zoneColumns)
                                           initial (drop (headerRowIndex + 1) lines)
                                   in Inr (concat (map (zoneResult dataType allZoneData)
                                                     (objectKeys allZoneData)))))))
      | _ \<Rightarrow> Inl TypeError)"

definition processZoneColumnHourlyData :: "jsval \<Rightarrow> string \<Rightarrow> ZoneData list" where
  "processZoneColumnHourlyData csvString dataType =
     (if falsy csvString then []
      else case processZoneColumnHourlyData_try csvString dataType of
             Inl e \<Rightarrow> []
           | Inr processedList \<Rightarrow> processedList)"

definition processNoiseData :: "jsval \<Rightarrow> ZoneData list" where
  "processNoiseData csvString = processZoneColumnHourlyData csvString ''Noise''"

section \<open>Properties of the criterion scorer\<close>







section \<open>Properties of the normalisation\<close>

text \<open>
  The normalised score lies in \<open>[0, 1]\<close> whenever the number of met criteria does not
  exceed the number of selected preferences.
\<close>

lemma normalizeComfortScore_bounded:
  "c \<le> n \<Longrightarrow> 0 \<le> normalizeComfortScore s c n \<and> normalizeComfortScore s c n \<le> 1"
proof (cases s)
  case NegInfinity
  then show ?thesis by (simp add: normalizeComfortScore_def)
next
  case (Fin r)
  assume cn: "c \<le> n"
  show ?thesis
  proof (cases "n = 0")
    case True
    with Fin show ?thesis by (simp add: normalizeComfortScore_def)
  next
    case n0: False
    show ?thesis
    proof (cases "c = n \<and> n > 0")
      case True
      with Fin n0 show ?thesis by (simp add: normalizeComfortScore_def)
    next
      case nall: False
      show ?thesis
      proof (cases "c > 0")
        case True
        with cn nall have "0 < n" "c < n" by auto
        with True have "0 \<le> (of_int c / of_int n :: rat)" "(of_int c / of_int n :: rat) \<le> 1"
          by (simp_all add: divide_le_eq)
        with Fin n0 nall True show ?thesis
          by (simp add: normalizeComfortScore_def)
      next
        case False
        define q where "q = max 0 (min ((r - of_int n * PENALTY_NO_DATA_IF_PREFERRED) /
                 (of_int n * MAX_SCORE_PER_CRITERION - of_int n * PENALTY_NO_DATA_IF_PREFERRED)) 1)"
        have "0 \<le> q" "q \<le> 1" by (simp_all add: q_def)
        hence "0 \<le> q * (4 / 10)" "q * (4 / 10) \<le> 1" by simp_all
        with Fin n0 nall False show ?thesis
          by (simp add: normalizeComfortScore_def Let_def q_def)
      qed
    qed
  qed
qed

section \<open>Properties of the feels-like lookup\<close>








section \<open>Properties of the aggregator and ranker\<close>

subsection \<open>The stable sort\<close>

lemma set_insertSpot: "set (insertSpot a bs) = insert a (set bs)"
  by (induction bs) auto

lemma length_insertSpot: "length (insertSpot a bs) = Suc (length bs)"
  by (induction bs) auto

lemma set_sortSpots: "set (sortSpots xs) = set xs"
  by (induction xs) (simp_all add: sortSpots_def set_insertSpot)

lemma length_sortSpots: "length (sortSpots xs) = length xs"
  by (induction xs) (simp_all add: sortSpots_def length_insertSpot)

lemma sortSpots_Cons: "sortSpots (a # xs) = insertSpot a (sortSpots xs)"
  by (simp add: sortSpots_def)

lemma hd_sortSpots:
  assumes top: "\<forall>s \<in> set xs. \<forall>t \<in> set xs. P s \<longrightarrow> compareSpots s t \<le> 0"
      and low: "\<forall>s \<in> set xs. \<forall>t \<in> set xs. P s \<and> \<not> P t \<longrightarrow> compareSpots t s > 0"
      and ex: "\<exists>s \<in> set xs. P s"
  shows "sortSpots xs \<noteq> [] \<and> hd (sortSpots xs) = hd (filter P xs)"
  using assms
proof (induction xs)
  case Nil
  then show ?case by simp
next
  case (Cons a xs)
  show ?case
  proof (cases "P a")
    case True
    show ?thesis
    proof (cases "sortSpots xs")
      case Nil
      with True show ?thesis by (simp add: sortSpots_Cons)
    next
      case (Cons y ys)
      hence "y \<in> set (sortSpots xs)" by simp
      hence "y \<in> set xs" by (simp add: set_sortSpots)
      with True Cons.prems(1) have "compareSpots a y \<le> 0" by simp
      with True Cons show ?thesis by (simp add: sortSpots_Cons)
    qed
  next
    case False
    with Cons.prems(3) have ex': "\<exists>s \<in> set xs. P s" by auto
    have IH: "sortSpots xs \<noteq> [] \<and> hd (sortSpots xs) = hd (filter P xs)"
      using Cons.IH Cons.prems(1,2) ex' by simp
    from ex' have ne: "filter P xs \<noteq> []" by (simp add: filter_empty_conv)
    hence "hd (filter P xs) \<in> set (filter P xs)" by (rule hd_in_set)
    hence h: "P (hd (filter P xs))" "hd (filter P xs) \<in> set xs" by simp_all
    obtain y ys where ys: "sortSpots xs = y # ys" using IH by (cases "sortSpots xs") auto
    with IH have y: "y = hd (filter P xs)" by simp
    with h False Cons.prems(2) have "compareSpots a y > 0" by simp
    with ys y False show ?thesis by (simp add: sortSpots_Cons)
  qed
qed

lemma padFallback_id: "min 3 n \<le> length xs \<Longrightarrow> padFallback n xs = xs"
  by (subst padFallback.simps) auto

lemma calculateFinalRecommendations_real:
  assumes "allZoneNamesOf d \<noteq> []"
  shows "calculateFinalRecommendations lp sp tp d th fl =
           (let top = take 3 (sortSpots (map (scoreZone (targetRange lp (lighting th))
                        (targetRange sp (noise_thresholds th))
                        (targetRange tp (temperature_thresholds th)) d fl) (allZoneNamesOf d)))
            in map (\<lambda>(index, spot). assignRank index spot) (zip [0 ..< length top] top))"
proof -
  let ?spots = "map (scoreZone (targetRange lp (lighting th))
                        (targetRange sp (noise_thresholds th))
                        (targetRange tp (temperature_thresholds th)) d fl) (allZoneNamesOf d)"
  let ?top = "take 3 (sortSpots ?spots)"
  let ?ranked = "map (\<lambda>(index, spot). assignRank index spot) (zip [0 ..< length ?top] ?top)"
  have "length ?ranked = min 3 (length (allZoneNamesOf d))"
    by (simp add: length_sortSpots min.commute)
  hence "padFallback (length (allZoneNamesOf d)) ?ranked = ?ranked"
    by (intro padFallback_id) simp
  with assms show ?thesis
    by (simp add: calculateFinalRecommendations_def Let_def)
qed

lemma calculateFinalRecommendations_empty:
  assumes "allZoneNamesOf d = []"
  shows "calculateFinalRecommendations lp sp tp d th fl =
     map (\<lambda>i. placeholderSpot (''Zone '' @ show_nat (i + 1) @ '' (No Data)'')) [0 ..< 3]"
  using assms by (simp add: calculateFinalRecommendations_def Let_def)

lemma length_calculateFinalRecommendations:
  "length (calculateFinalRecommendations lp sp tp d th fl) =
     (if allZoneNamesOf d = [] then 3 else min 3 (length (allZoneNamesOf d)))"
proof (cases "allZoneNamesOf d = []")
  case True
  thus ?thesis by (simp add: calculateFinalRecommendations_empty)
next
  case False
  thus ?thesis
    by (simp add: calculateFinalRecommendations_real Let_def length_sortSpots min.commute)
qed






subsection \<open>Length of the ranked list\<close>

text \<open>
  Claim C2 says that the ranked list always has exactly 3 entries, padded with placeholder
  zones when fewer than 3 real zones exist. The padding loop only runs while the list is
  shorter than the number of zone names, which it never is after the top three have been
  taken, so the list has \<open>min 3 n\<close> entries for \<open>n > 0\<close> zones
  (\<open>length_calculateFinalRecommendations\<close>). With a single zone, in the light dataset
  only, the list has one entry.
\<close>

theorem one_zone_yields_one_entry:
  "length (calculateFinalRecommendations (Some ''well-lit'') None None
     \<lparr>light_data = [\<lparr>Zones = ''8'', timeSeries = [(''Morning'', Some 700)], averageLux = Num 700,
                      averageDb = Undefined, averageTemp = Undefined\<rparr>],
      noise_data = [], temperature_data = []\<rparr>
     callerThresholds (Some [])) = 1"
  by code_simp

subsection \<open>Scores of a single zone\<close>

lemma metCount_range: "0 \<le> metCount m \<and> metCount m \<le> 1"
  by (simp add: metCount_def split: option.splits)

lemma metCount_one: "metCount m = 1 \<longleftrightarrow> m = Some (Flag True)"
proof (cases m)
  case None
  thus ?thesis by (simp add: metCount_def)
next
  case (Some f)
  thus ?thesis by (cases f) (simp_all add: metCount_def)
qed

lemma zoneId_scoreZone [simp]: "zoneId (scoreZone tL tN tT d fl z) = z"
  by (simp add: scoreZone_def Let_def)

lemma metCriteria_scoreZone:
  "metCriteria (scoreZone tL tN tT d fl z) =
     \<lparr>light_c = map_option (metFlag (isAvailable (mapGet (light_data d) z) (optAverage averageLux (mapGet (light_data d) z)))
                    (optAverage averageLux (mapGet (light_data d) z))) tL,
      noise_c = map_option (metFlag (isAvailable (mapGet (noise_data d) z) (optAverage averageDb (mapGet (noise_data d) z)))
                    (optAverage averageDb (mapGet (noise_data d) z))) tN,
      temp_c = map_option (metFlag (isAvailable (mapGet (temperature_data d) z) (optAverage averageTemp (mapGet (temperature_data d) z)))
                    (optAverage averageTemp (mapGet (temperature_data d) z))) tT\<rparr>"
  by (simp add: scoreZone_def Let_def)

lemma criteriaMetCount_scoreZone:
  "criteriaMetCount (scoreZone tL tN tT d fl z) =
     metCount (light_c (metCriteria (scoreZone tL tN tT d fl z)))
     + metCount (noise_c (metCriteria (scoreZone tL tN tT d fl z)))
     + metCount (temp_c (metCriteria (scoreZone tL tN tT d fl z)))"
  by (simp add: scoreZone_def Let_def)

lemma comfortScore_scoreZone:
  "\<exists>s. originalComfortScore (scoreZone tL tN tT d fl z) = Fin s \<and>
       comfortScore (scoreZone tL tN tT d fl z) =
         normalizeComfortScore (Fin s) (criteriaMetCount (scoreZone tL tN tT d fl z))
           ((case tL of Some r \<Rightarrow> 1 | None \<Rightarrow> 0) + (case tN of Some r \<Rightarrow> 1 | None \<Rightarrow> 0)
            + (case tT of Some r \<Rightarrow> 1 | None \<Rightarrow> 0))"
  by (simp add: scoreZone_def Let_def)

lemma criteriaMetCount_bounds:
  "0 \<le> criteriaMetCount (scoreZone tL tN tT d fl z) \<and> criteriaMetCount (scoreZone tL tN tT d fl z) \<le> 3"
  using metCount_range [of "light_c (metCriteria (scoreZone tL tN tT d fl z))"]
        metCount_range [of "noise_c (metCriteria (scoreZone tL tN tT d fl z))"]
        metCount_range [of "temp_c (metCriteria (scoreZone tL tN tT d fl z))"]
  by (simp only: criteriaMetCount_scoreZone) linarith

lemma criteriaMetCount_three:
  assumes "criteriaMetCount (scoreZone tL tN tT d fl z) = 3"
  shows "metCriteria (scoreZone tL tN tT d fl z) =
           \<lparr>light_c = Some (Flag True), noise_c = Some (Flag True), temp_c = Some (Flag True)\<rparr>"
proof -
  let ?m = "metCriteria (scoreZone tL tN tT d fl z)"
  have "metCount (light_c ?m) = 1 \<and> metCount (noise_c ?m) = 1 \<and> metCount (temp_c ?m) = 1"
    using assms metCount_range [of "light_c ?m"] metCount_range [of "noise_c ?m"]
      metCount_range [of "temp_c ?m"]
    by (simp only: criteriaMetCount_scoreZone) linarith
  hence "light_c ?m = Some (Flag True)" "noise_c ?m = Some (Flag True)" "temp_c ?m = Some (Flag True)"
    by (simp_all add: metCount_one)
  thus ?thesis by (cases ?m) simp
qed

lemma normalize_all_met: "0 < n \<Longrightarrow> normalizeComfortScore (Fin s) n n = 1"
  by (simp add: normalizeComfortScore_def)

lemma normalize_not_all_met:
  assumes "c < n" "0 < n"
  shows "normalizeComfortScore (Fin s) c n < 1"
proof -
  from assms have n0: "n \<noteq> 0" by simp
  show ?thesis
  proof (cases "c > 0")
    case True
    with assms have "(of_int c / of_int n :: rat) < 1" by (simp add: divide_less_eq)
    moreover have "q < 1 \<Longrightarrow> 5 / 10 + q * (5 / 10) < 1" for q :: rat by simp
    ultimately have "5 / 10 + (of_int c / of_int n :: rat) * (5 / 10) < 1" by blast
    moreover have "normalizeComfortScore (Fin s) c n = 5 / 10 + (of_int c / of_int n) * (5 / 10)"
      using assms n0 True by (simp add: normalizeComfortScore_def)
    ultimately show ?thesis by (simp only:)
  next
    case False
    define q where "q = max 0 (min ((s - of_int n * PENALTY_NO_DATA_IF_PREFERRED) /
             (of_int n * MAX_SCORE_PER_CRITERION - of_int n * PENALTY_NO_DATA_IF_PREFERRED)) 1)"
    have "q \<le> 1" by (simp add: q_def)
    hence "q * (4 / 10) < 1" by simp
    with assms n0 False show ?thesis
      by (simp add: normalizeComfortScore_def Let_def q_def)
  qed
qed

lemma metFlag_in_range:
  assumes "optAverage field (mapGet rows z) = Num v" "min_pref r \<le> v" "v \<le> max_pref r"
  shows "metFlag (isAvailable (mapGet rows z) (optAverage field (mapGet rows z)))
           (optAverage field (mapGet rows z)) r = Flag True"
  using assms by (cases "mapGet rows z") (simp_all add: metFlag_def isAvailable_def optAverage_def)

lemma assignRank_fields [simp]:
  "zoneId (assignRank i s) = zoneId s"
  "comfortScore (assignRank i s) = comfortScore s"
  "criteriaMetCount (assignRank i s) = criteriaMetCount s"
  "originalComfortScore (assignRank i s) = originalComfortScore s"
  "metCriteria (assignRank i s) = metCriteria s"
  by (simp_all add: assignRank_def)

lemma hd_ranked:
  "xs \<noteq> [] \<Longrightarrow>
   hd (map (\<lambda>(index, spot). assignRank index spot) (zip [0 ..< length (take 3 xs)] (take 3 xs)))
     = assignRank 0 (hd xs)"
  by (cases xs) (simp_all add: upt_conv_Cons del: upt_Suc)

lemma ranked_elements:
  assumes "x \<in> set (map (\<lambda>(index, spot). assignRank index spot) (zip is (take 3 xs)))"
  shows "\<exists>i s. s \<in> set xs \<and> x = assignRank i s"
proof -
  from assms obtain i s where "(i, s) \<in> set (zip is (take 3 xs))" "x = assignRank i s" by auto
  moreover hence "s \<in> set (take 3 xs)" by (meson set_zip_rightD)
  hence "s \<in> set xs" by (meson in_set_takeD)
  ultimately show ?thesis by blast
qed

lemma metCount_selected:
  "0 \<le> metCount (map_option f t) \<and>
   metCount (map_option f t) \<le> (case t of Some r \<Rightarrow> 1 | None \<Rightarrow> 0)"
  by (cases t) (simp_all add: metCount_def)

lemma criteriaMetCount_le_selected:
  "0 \<le> criteriaMetCount (scoreZone tL tN tT d fl z) \<and>
   criteriaMetCount (scoreZone tL tN tT d fl z)
     \<le> (case tL of Some r \<Rightarrow> 1 | None \<Rightarrow> 0) + (case tN of Some r \<Rightarrow> 1 | None \<Rightarrow> 0)
        + (case tT of Some r \<Rightarrow> 1 | None \<Rightarrow> 0)"
proof -
  let ?aL = "optAverage averageLux (mapGet (light_data d) z)"
  let ?aN = "optAverage averageDb (mapGet (noise_data d) z)"
  let ?aT = "optAverage averageTemp (mapGet (temperature_data d) z)"
  note l = metCount_selected [of "metFlag (isAvailable (mapGet (light_data d) z) ?aL) ?aL" tL]
  note n = metCount_selected [of "metFlag (isAvailable (mapGet (noise_data d) z) ?aN) ?aN" tN]
  note t = metCount_selected [of "metFlag (isAvailable (mapGet (temperature_data d) z) ?aT) ?aT" tT]
  from l n t show ?thesis
    by (simp only: criteriaMetCount_scoreZone metCriteria_scoreZone Criteria.simps) linarith
qed

lemma selected_le_three:
  "(0::int) \<le> (case tL of Some r \<Rightarrow> 1 | None \<Rightarrow> 0) + (case tN of Some r \<Rightarrow> 1 | None \<Rightarrow> 0)
        + (case tT of Some r \<Rightarrow> 1 | None \<Rightarrow> 0) \<and>
   (case tL of Some r \<Rightarrow> 1 | None \<Rightarrow> 0) + (case tN of Some r \<Rightarrow> 1 | None \<Rightarrow> 0)
        + (case tT of Some r \<Rightarrow> 1 | None \<Rightarrow> 0) \<le> (3::int)"
  by (simp split: option.splits)

lemma comfortScore_scoreZone_range:
  "0 \<le> comfortScore (scoreZone tL tN tT d fl z) \<and> comfortScore (scoreZone tL tN tT d fl z) \<le> 1"
proof -
  from comfortScore_scoreZone [of tL tN tT d fl z] obtain s where
    s: "comfortScore (scoreZone tL tN tT d fl z) =
          normalizeComfortScore (Fin s) (criteriaMetCount (scoreZone tL tN tT d fl z))
            ((case tL of Some r \<Rightarrow> 1 | None \<Rightarrow> 0) + (case tN of Some r \<Rightarrow> 1 | None \<Rightarrow> 0)
             + (case tT of Some r \<Rightarrow> 1 | None \<Rightarrow> 0))" by blast
  from criteriaMetCount_le_selected [of tL tN tT d fl z]
  show ?thesis unfolding s by (intro normalizeComfortScore_bounded) simp
qed

text \<open>
  Claim C3. The normalised comfort score returned by \<open>normalizeComfortScore\<close> lies in
  \<open>[0, 1]\<close> for every raw score, for 0, 1, 2 or 3 selected preferences and for every
  number of met criteria the function can be called with. It is local to the aggregator,
  whose single call passes the two counters of one zone: both are incremented under the same
  guards, so the number of met criteria never exceeds the number of selected preferences,
  which is at most 3. Hence every scored zone and every entry of the ranked output has a
  comfort score in \<open>[0, 1]\<close>.
\<close>

theorem comfortScore_in_unit_interval:
  "(c \<le> n \<longrightarrow> 0 \<le> normalizeComfortScore s c n \<and> normalizeComfortScore s c n \<le> 1) \<and>
   (0 \<le> criteriaMetCount (scoreZone tL tN tT d fl z) \<and>
    criteriaMetCount (scoreZone tL tN tT d fl z)
      \<le> (case tL of Some r \<Rightarrow> 1 | None \<Rightarrow> 0) + (case tN of Some r \<Rightarrow> 1 | None \<Rightarrow> 0)
         + (case tT of Some r \<Rightarrow> 1 | None \<Rightarrow> 0) \<and>
    (case tL of Some r \<Rightarrow> 1 | None \<Rightarrow> 0) + (case tN of Some r \<Rightarrow> 1 | None \<Rightarrow> 0)
         + (case tT of Some r \<Rightarrow> 1 | None \<Rightarrow> 0) \<le> (3::int) \<and>
    comfortScore (scoreZone tL tN tT d fl z) =
      normalizeComfortScore (originalComfortScore (scoreZone tL tN tT d fl z))
        (criteriaMetCount (scoreZone tL tN tT d fl z))
        ((case tL of Some r \<Rightarrow> 1 | None \<Rightarrow> 0) + (case tN of Some r \<Rightarrow> 1 | None \<Rightarrow> 0)
         + (case tT of Some r \<Rightarrow> 1 | None \<Rightarrow> 0)) \<and>
    0 \<le> comfortScore (scoreZone tL tN tT d fl z) \<and>
    comfortScore (scoreZone tL tN tT d fl z) \<le> 1) \<and>
   (\<forall>x \<in> set (calculateFinalRecommendations lightingPref spaceUsagePref temperaturePref
                   allProcessedData allThresholds feelsLikeLookupData).
      0 \<le> comfortScore x \<and> comfortScore x \<le> 1)"
proof (intro conjI impI ballI)
  show "0 \<le> normalizeComfortScore s c n" if "c \<le> n"
    using normalizeComfortScore_bounded [OF that] by simp
  show "normalizeComfortScore s c n \<le> 1" if "c \<le> n"
    using normalizeComfortScore_bounded [OF that] by simp
  show "0 \<le> criteriaMetCount (scoreZone tL tN tT d fl z)"
    using criteriaMetCount_le_selected by blast
  show "criteriaMetCount (scoreZone tL tN tT d fl z)
      \<le> (case tL of Some r \<Rightarrow> 1 | None \<Rightarrow> 0) + (case tN of Some r \<Rightarrow> 1 | None \<Rightarrow> 0)
         + (case tT of Some r \<Rightarrow> 1 | None \<Rightarrow> 0)"
    using criteriaMetCount_le_selected by blast
  show "(case tL of Some r \<Rightarrow> 1 | None \<Rightarrow> 0) + (case tN of Some r \<Rightarrow> 1 | None \<Rightarrow> 0)
         + (case tT of Some r \<Rightarrow> 1 | None \<Rightarrow> 0) \<le> (3::int)"
    using selected_le_three by blast
  show "comfortScore (scoreZone tL tN tT d fl z) =
      normalizeComfortScore (originalComfortScore (scoreZone tL tN tT d fl z))
        (criteriaMetCount (scoreZone tL tN tT d fl z))
        ((case tL of Some r \<Rightarrow> 1 | None \<Rightarrow> 0) + (case tN of Some r \<Rightarrow> 1 | None \<Rightarrow> 0)
         + (case tT of Some r \<Rightarrow> 1 | None \<Rightarrow> 0))"
    using comfortScore_scoreZone [of tL tN tT d fl z] by auto
  show "0 \<le> comfortScore (scoreZone tL tN tT d fl z)"
    using comfortScore_scoreZone_range by blast
  show "comfortScore (scoreZone tL tN tT d fl z) \<le> 1"
    using comfortScore_scoreZone_range by blast
next
  fix x
  assume x: "x \<in> set (calculateFinalRecommendations lightingPref spaceUsagePref temperaturePref
                   allProcessedData allThresholds feelsLikeLookupData)"
  have "0 \<le> comfortScore x \<and> comfortScore x \<le> 1"
  proof (cases "allZoneNamesOf allProcessedData = []")
    case True
    with x show ?thesis
      by (auto simp: calculateFinalRecommendations_empty placeholderSpot_def)
  next
    case False
    let ?f = "scoreZone (targetRange lightingPref (lighting allThresholds))
                (targetRange spaceUsagePref (noise_thresholds allThresholds))
                (targetRange temperaturePref (temperature_thresholds allThresholds))
                allProcessedData feelsLikeLookupData"
    from x have "x \<in> set (map (\<lambda>(index, spot). assignRank index spot)
              (zip [0 ..< length (take 3 (sortSpots (map ?f (allZoneNamesOf allProcessedData))))]
                   (take 3 (sortSpots (map ?f (allZoneNamesOf allProcessedData))))))"
      using calculateFinalRecommendations_real [OF False, where lp = lightingPref
              and th = allThresholds and sp = spaceUsagePref and tp = temperaturePref
              and fl = feelsLikeLookupData]
      by (simp add: Let_def)
    from ranked_elements [OF this] obtain i sp where
      sp: "sp \<in> set (sortSpots (map ?f (allZoneNamesOf allProcessedData)))" "x = assignRank i sp"
      by blast
    from sp(1) obtain z' where "sp = ?f z'" by (auto simp: set_sortSpots)
    with sp(2) comfortScore_scoreZone_range [of _ _ _ allProcessedData feelsLikeLookupData z']
    show ?thesis by simp
  qed
  thus "0 \<le> comfortScore x" "comfortScore x \<le> 1" by simp_all
qed

theorem comfortScore_in_unit_interval_witness:
  "(1::int) \<le> 3 \<and> 0 \<le> normalizeComfortScore (Fin 25) 1 3 \<and>
   normalizeComfortScore (Fin 25) 1 3 \<le> 1 \<and>
   0 \<le> comfortScore (hd (calculateFinalRecommendations (Some ''well-lit'') None None
     \<lparr>light_data = [\<lparr>Zones = ''8'', timeSeries = [(''Morning'', Some 700)], averageLux = Num 700,
                      averageDb = Undefined, averageTemp = Undefined\<rparr>],
      noise_data = [], temperature_data = []\<rparr> callerThresholds (Some []))) \<and>
   comfortScore (hd (calculateFinalRecommendations (Some ''well-lit'') None None
     \<lparr>light_data = [\<lparr>Zones = ''8'', timeSeries = [(''Morning'', Some 700)], averageLux = Num 700,
                      averageDb = Undefined, averageTemp = Undefined\<rparr>],
      noise_data = [], temperature_data = []\<rparr> callerThresholds (Some []))) \<le> 1"
proof -
  let ?d = "\<lparr>light_data = [\<lparr>Zones = ''8'', timeSeries = [(''Morning'', Some 700)], averageLux = Num 700,
                      averageDb = Undefined, averageTemp = Undefined\<rparr>],
      noise_data = [], temperature_data = []\<rparr>"
  let ?r = "calculateFinalRecommendations (Some ''well-lit'') None None ?d callerThresholds (Some [])"
  have names: "allZoneNamesOf ?d \<noteq> []" by code_simp
  have "?r \<noteq> []"
    using length_calculateFinalRecommendations [of "Some ''well-lit''" None None ?d callerThresholds "Some []"]
      names
    by (cases "allZoneNamesOf ?d") auto
  hence mem: "hd ?r \<in> set ?r" by (rule hd_in_set)
  note inst = comfortScore_in_unit_interval [where c = 1 and n = 3 and s = "Fin 25"
      and lightingPref = "Some ''well-lit''" and spaceUsagePref = None and temperaturePref = None
      and allProcessedData = ?d and allThresholds = callerThresholds
      and feelsLikeLookupData = "Some []"]
  from inst have a: "0 \<le> normalizeComfortScore (Fin 25) 1 3 \<and> normalizeComfortScore (Fin 25) 1 3 \<le> 1"
    by simp
  from inst mem have b: "0 \<le> comfortScore (hd ?r) \<and> comfortScore (hd ?r) \<le> 1"
    by blast
  from a b show ?thesis by simp
qed

text \<open>
  Claim C5. If all three preference families are selected and some zone has numeric averages
  for all three sensors, each inside its selected range, then that zone's comfort score is 1
  and the first entry of the ranked output is a zone meeting all three criteria: the first
  such zone in the enumeration order of the zone-id union.
\<close>

theorem all_criteria_met_ranks_first:
  assumes tl: "targetRange lightingPref (lighting th) = Some lr"
      and tn: "targetRange spaceUsagePref (noise_thresholds th) = Some nr"
      and tt: "targetRange temperaturePref (temperature_thresholds th) = Some tr"
      and z: "z \<in> set (allZoneNamesOf d)"
      and l: "optAverage averageLux (mapGet (light_data d) z) = Num lv"
             "min_pref lr \<le> lv" "lv \<le> max_pref lr"
      and n: "optAverage averageDb (mapGet (noise_data d) z) = Num nv"
             "min_pref nr \<le> nv" "nv \<le> max_pref nr"
      and t: "optAverage averageTemp (mapGet (temperature_data d) z) = Num tv"
             "min_pref tr \<le> tv" "tv \<le> max_pref tr"
  shows "comfortScore (scoreZone (Some lr) (Some nr) (Some tr) d fl z) = 1 \<and>
         (let result = calculateFinalRecommendations lightingPref spaceUsagePref temperaturePref d th fl;
              allMet = (\<lambda>z'. criteriaMetCount (scoreZone (Some lr) (Some nr) (Some tr) d fl z') = 3)
          in result \<noteq> [] \<and> comfortScore (hd result) = 1 \<and> criteriaMetCount (hd result) = 3 \<and>
             metCriteria (hd result) =
               \<lparr>light_c = Some (Flag True), noise_c = Some (Flag True), temp_c = Some (Flag True)\<rparr> \<and>
             zoneId (hd result) = hd (filter allMet (allZoneNamesOf d)) \<and>
             zoneId (hd result) \<in> set (allZoneNamesOf d))"
proof -
  let ?f = "scoreZone (Some lr) (Some nr) (Some tr) d fl"
  let ?names = "allZoneNamesOf d"
  let ?P = "\<lambda>s. criteriaMetCount s = 3"
  let ?spots = "map ?f ?names"
  have comfort: "comfortScore (?f z') = (if criteriaMetCount (?f z') = 3 then 1
                   else comfortScore (?f z')) \<and>
                 (criteriaMetCount (?f z') \<noteq> 3 \<longrightarrow> comfortScore (?f z') < 1) \<and>
                 criteriaMetCount (?f z') \<le> 3" for z'
  proof -
    from comfortScore_scoreZone [of "Some lr" "Some nr" "Some tr" d fl z']
    obtain s where s: "comfortScore (?f z') = normalizeComfortScore (Fin s) (criteriaMetCount (?f z')) 3"
      by auto
    have b: "criteriaMetCount (?f z') \<le> 3" using criteriaMetCount_bounds by blast
    show ?thesis
    proof (cases "criteriaMetCount (?f z') = 3")
      case True
      with s show ?thesis by (simp add: normalize_all_met)
    next
      case False
      with b have "criteriaMetCount (?f z') < 3" by simp
      hence "normalizeComfortScore (Fin s) (criteriaMetCount (?f z')) 3 < 1"
        by (rule normalize_not_all_met) simp
      with s False b show ?thesis by simp
    qed
  qed
  have metz: "criteriaMetCount (?f z) = 3"
    using metFlag_in_range [OF l] metFlag_in_range [OF n] metFlag_in_range [OF t]
    by (simp add: criteriaMetCount_scoreZone metCriteria_scoreZone metCount_def)
  hence cz: "comfortScore (?f z) = 1" using comfort [of z] by simp
  have top: "\<forall>s \<in> set ?spots. \<forall>u \<in> set ?spots. ?P s \<longrightarrow> compareSpots s u \<le> 0"
  proof (intro ballI impI)
    fix s u assume "s \<in> set ?spots" "u \<in> set ?spots" and ps: "?P s"
    then obtain a b where ab: "s = ?f a" "u = ?f b" by auto
    from comfort [of a] ps ab have 1: "comfortScore s = 1" by simp
    from comfort [of b] ab have 2: "comfortScore u \<le> 1" "criteriaMetCount u \<le> 3"
      by (auto split: if_splits)
    from 1 2 ps show "compareSpots s u \<le> 0" by (simp add: compareSpots_def)
  qed
  have low: "\<forall>s \<in> set ?spots. \<forall>u \<in> set ?spots. ?P s \<and> \<not> ?P u \<longrightarrow> compareSpots u s > 0"
  proof (intro ballI impI)
    fix s u assume "s \<in> set ?spots" "u \<in> set ?spots" and ps: "?P s \<and> \<not> ?P u"
    then obtain a b where ab: "s = ?f a" "u = ?f b" by auto
    from comfort [of a] ps ab have 1: "comfortScore s = 1" by simp
    from comfort [of b] ps ab have 2: "comfortScore u < 1" by simp
    from 1 2 show "compareSpots u s > 0" by (simp add: compareSpots_def)
  qed
  have ex: "\<exists>s \<in> set ?spots. ?P s" using z metz by auto
  from hd_sortSpots [of ?spots ?P, OF top low ex]
  have sorted: "sortSpots ?spots \<noteq> []" "hd (sortSpots ?spots) = hd (filter ?P ?spots)"
    by simp_all
  have fm: "filter ?P ?spots = map ?f (filter (\<lambda>z'. criteriaMetCount (?f z') = 3) ?names)"
    by (simp add: filter_map comp_def)
  have ne: "filter (\<lambda>z'. criteriaMetCount (?f z') = 3) ?names \<noteq> []"
    using z metz by (auto simp: filter_empty_conv)
  define w where "w = hd (filter (\<lambda>z'. criteriaMetCount (?f z') = 3) ?names)"
  have "w \<in> set (filter (\<lambda>z'. criteriaMetCount (?f z') = 3) ?names)"
    unfolding w_def using ne by (rule hd_in_set)
  hence w: "criteriaMetCount (?f w) = 3" "w \<in> set ?names" by simp_all
  have hdw: "hd (sortSpots ?spots) = ?f w"
    using sorted(2) ne unfolding fm w_def by (simp add: hd_map)
  from z have names: "?names \<noteq> []" by auto
  have res: "calculateFinalRecommendations lightingPref spaceUsagePref temperaturePref d th fl =
        map (\<lambda>(index, spot). assignRank index spot)
          (zip [0 ..< length (take 3 (sortSpots ?spots))] (take 3 (sortSpots ?spots)))"
    using calculateFinalRecommendations_real [OF names, where lp = lightingPref and th = th
            and sp = spaceUsagePref and tp = temperaturePref and fl = fl]
    by (simp add: tl tn tt Let_def)
  have hdres: "hd (calculateFinalRecommendations lightingPref spaceUsagePref temperaturePref d th fl)
                 = assignRank 0 (?f w)"
    unfolding res using hd_ranked [OF sorted(1)] hdw by simp
  have nonempty: "calculateFinalRecommendations lightingPref spaceUsagePref temperaturePref d th fl \<noteq> []"
    using length_calculateFinalRecommendations [of lightingPref spaceUsagePref temperaturePref d th fl] names
    by (cases "allZoneNamesOf d") auto
  have cw: "comfortScore (?f w) = 1" using comfort [of w] w(1) by simp
  have mw: "metCriteria (?f w) =
      \<lparr>light_c = Some (Flag True), noise_c = Some (Flag True), temp_c = Some (Flag True)\<rparr>"
    using w(1) by (rule criteriaMetCount_three)
  show ?thesis
    using cz nonempty cw mw w
    by (simp add: Let_def hdres w_def [symmetric])
qed

theorem all_criteria_met_ranks_first_witness:
  "comfortScore (hd (calculateFinalRecommendations (Some ''well-lit'') (Some ''focus-work'')
       (Some ''stable-comfortable'')
     \<lparr>light_data = [\<lparr>Zones = ''8'', timeSeries = [], averageLux = Num 700,
                      averageDb = Undefined, averageTemp = Undefined\<rparr>],
      noise_data = [\<lparr>Zones = ''26'', timeSeries = [], averageLux = Undefined,
                      averageDb = Num 60, averageTemp = Undefined\<rparr>,
                    \<lparr>Zones = ''8'', timeSeries = [], averageLux = Undefined,
                      averageDb = Num 40, averageTemp = Undefined\<rparr>],
      temperature_data = [\<lparr>Zones = ''8'', timeSeries = [], averageLux = Undefined,
                      averageDb = Undefined, averageTemp = Num 24\<rparr>]\<rparr>
     callerThresholds (Some []))) = 1 \<and>
   zoneId (hd (calculateFinalRecommendations (Some ''well-lit'') (Some ''focus-work'')
       (Some ''stable-comfortable'')
     \<lparr>light_data = [\<lparr>Zones = ''8'', timeSeries = [], averageLux = Num 700,
                      averageDb = Undefined, averageTemp = Undefined\<rparr>],
      noise_data = [\<lparr>Zones = ''26'', timeSeries = [], averageLux = Undefined,
                      averageDb = Num 60, averageTemp = Undefined\<rparr>,
                    \<lparr>Zones = ''8'', timeSeries = [], averageLux = Undefined,
                      averageDb = Num 40, averageTemp = Undefined\<rparr>],
      temperature_data = [\<lparr>Zones = ''8'', timeSeries = [], averageLux = Undefined,
                      averageDb = Undefined, averageTemp = Num 24\<rparr>]\<rparr>
     callerThresholds (Some []))) \<in> set [''8'', ''26'']"
proof -
  let ?d = "\<lparr>light_data = [\<lparr>Zones = ''8'', timeSeries = [], averageLux = Num 700,
                      averageDb = Undefined, averageTemp = Undefined\<rparr>],
      noise_data = [\<lparr>Zones = ''26'', timeSeries = [], averageLux = Undefined,
                      averageDb = Num 60, averageTemp = Undefined\<rparr>,
                    \<lparr>Zones = ''8'', timeSeries = [], averageLux = Undefined,
                      averageDb = Num 40, averageTemp = Undefined\<rparr>],
      temperature_data = [\<lparr>Zones = ''8'', timeSeries = [], averageLux = Undefined,
                      averageDb = Undefined, averageTemp = Num 24\<rparr>]\<rparr>"
  have names: "allZoneNamesOf ?d = [''8'', ''26'']" by code_simp
  hence z: "''8'' \<in> set (allZoneNamesOf ?d)" by simp
  have tl: "targetRange (Some ''well-lit'') (lighting callerThresholds)
              = Some \<lparr>min_pref = 501, max_pref = 1000, ideal = 750\<rparr>" by code_simp
  have tn: "targetRange (Some ''focus-work'') (noise_thresholds callerThresholds)
              = Some \<lparr>min_pref = 0, max_pref = 45, ideal = 40\<rparr>" by code_simp
  have tt: "targetRange (Some ''stable-comfortable'') (temperature_thresholds callerThresholds)
              = Some \<lparr>min_pref = 23, max_pref = 25, ideal = 24\<rparr>" by code_simp
  have l: "optAverage averageLux (mapGet (light_data ?d) ''8'') = Num 700" by code_simp
  have n: "optAverage averageDb (mapGet (noise_data ?d) ''8'') = Num 40" by code_simp
  have t: "optAverage averageTemp (mapGet (temperature_data ?d) ''8'') = Num 24" by code_simp
  have r: "(501::rat) \<le> 700" "(700::rat) \<le> 1000" "(0::rat) \<le> 40" "(40::rat) \<le> 45"
          "(23::rat) \<le> 24" "(24::rat) \<le> 25" by simp_all
  note inst = all_criteria_met_ranks_first [OF tl tn tt z l _ _ n _ _ t, of "Some []",
               unfolded Let_def PreferenceRange.simps, OF r]
  from inst have "comfortScore (hd (calculateFinalRecommendations (Some ''well-lit'')
       (Some ''focus-work'') (Some ''stable-comfortable'') ?d callerThresholds (Some []))) = 1"
    by (elim conjE)
  moreover from inst have "zoneId (hd (calculateFinalRecommendations (Some ''well-lit'')
       (Some ''focus-work'') (Some ''stable-comfortable'') ?d callerThresholds (Some [])))
       \<in> set (allZoneNamesOf ?d)"
    by (elim conjE)
  ultimately show ?thesis unfolding names by (rule conjI)
qed







text \<open>
  Claim C10. When no preference family is selected, every real zone, and so every entry of
  the ranked output, has raw score 0, comfort score exactly 0.4 and no met criterion; the
  other buckets of the no-preference branch (1.0, 0.8, 0.6, 0.2 and 0) are not reached.
\<close>

theorem no_preference_scores:
  assumes "targetRange lightingPref (lighting th) = None"
      and "targetRange spaceUsagePref (noise_thresholds th) = None"
      and "targetRange temperaturePref (temperature_thresholds th) = None"
      and "allZoneNamesOf d \<noteq> []"
  shows "(\<forall>z \<in> set (allZoneNamesOf d).
            originalComfortScore (scoreZone (targetRange lightingPref (lighting th))
               (targetRange spaceUsagePref (noise_thresholds th))
               (targetRange temperaturePref (temperature_thresholds th)) d fl z) = Fin 0 \<and>
            comfortScore (scoreZone (targetRange lightingPref (lighting th))
               (targetRange spaceUsagePref (noise_thresholds th))
               (targetRange temperaturePref (temperature_thresholds th)) d fl z) = 4 / 10 \<and>
            criteriaMetCount (scoreZone (targetRange lightingPref (lighting th))
               (targetRange spaceUsagePref (noise_thresholds th))
               (targetRange temperaturePref (temperature_thresholds th)) d fl z) = 0) \<and>
         (\<forall>x \<in> set (calculateFinalRecommendations lightingPref spaceUsagePref temperaturePref d th fl).
            originalComfortScore x = Fin 0 \<and> comfortScore x = 4 / 10 \<and> criteriaMetCount x = 0 \<and>
            comfortScore x \<notin> {1, 8 / 10, 6 / 10, 2 / 10, 0})"
proof -
  let ?f = "scoreZone (targetRange lightingPref (lighting th))
               (targetRange spaceUsagePref (noise_thresholds th))
               (targetRange temperaturePref (temperature_thresholds th)) d fl"
  have none: "originalComfortScore (?f z) = Fin 0 \<and> comfortScore (?f z) = 4 / 10 \<and>
              criteriaMetCount (?f z) = 0" for z
    by (simp add: assms(1-3) scoreZone_def Let_def normalizeComfortScore_def metCount_def
          PENALTY_NO_DATA_IF_PREFERRED_def)
  have zones: "\<forall>z \<in> set (allZoneNamesOf d).
            originalComfortScore (?f z) = Fin 0 \<and> comfortScore (?f z) = 4 / 10 \<and>
            criteriaMetCount (?f z) = 0"
    using none by blast
  have entries: "\<forall>x \<in> set (calculateFinalRecommendations lightingPref spaceUsagePref
                               temperaturePref d th fl).
            originalComfortScore x = Fin 0 \<and> comfortScore x = 4 / 10 \<and> criteriaMetCount x = 0 \<and>
            comfortScore x \<notin> {1, 8 / 10, 6 / 10, 2 / 10, 0}"
  proof
    fix x
    assume "x \<in> set (calculateFinalRecommendations lightingPref spaceUsagePref temperaturePref d th fl)"
    hence "x \<in> set (map (\<lambda>(index, spot). assignRank index spot)
              (zip [0 ..< length (take 3 (sortSpots (map ?f (allZoneNamesOf d))))]
                   (take 3 (sortSpots (map ?f (allZoneNamesOf d))))))"
      using calculateFinalRecommendations_real [OF assms(4), where lp = lightingPref and th = th
              and sp = spaceUsagePref and tp = temperaturePref and fl = fl]
      by (simp add: Let_def)
    from ranked_elements [OF this] obtain i s where
      s: "s \<in> set (sortSpots (map ?f (allZoneNamesOf d)))" "x = assignRank i s" by blast
    from s(1) obtain z where "s = ?f z"
      by (auto simp: set_sortSpots)
    with none [of z] s(2) show "originalComfortScore x = Fin 0 \<and> comfortScore x = 4 / 10 \<and>
             criteriaMetCount x = 0 \<and> comfortScore x \<notin> {1, 8 / 10, 6 / 10, 2 / 10, 0}"
      by simp
  qed
  from zones entries show ?thesis by (rule conjI)
qed

theorem no_preference_scores_witness:
  "originalComfortScore (hd (calculateFinalRecommendations None None None
     \<lparr>light_data = [\<lparr>Zones = ''8'', timeSeries = [(''Morning'', Some 700)], averageLux = Num 700,
                      averageDb = Undefined, averageTemp = Undefined\<rparr>],
      noise_data = [], temperature_data = []\<rparr> callerThresholds (Some []))) = Fin 0 \<and>
   comfortScore (hd (calculateFinalRecommendations None None None
     \<lparr>light_data = [\<lparr>Zones = ''8'', timeSeries = [(''Morning'', Some 700)], averageLux = Num 700,
                      averageDb = Undefined, averageTemp = Undefined\<rparr>],
      noise_data = [], temperature_data = []\<rparr> callerThresholds (Some []))) = 4 / 10"
proof -
  let ?d = "\<lparr>light_data = [\<lparr>Zones = ''8'', timeSeries = [(''Morning'', Some 700)], averageLux = Num 700,
                      averageDb = Undefined, averageTemp = Undefined\<rparr>],
      noise_data = [], temperature_data = []\<rparr>"
  let ?r = "calculateFinalRecommendations None None None ?d callerThresholds (Some [])"
  have names: "allZoneNamesOf ?d \<noteq> []" by code_simp
  have t: "targetRange None (lighting callerThresholds) = None"
          "targetRange None (noise_thresholds callerThresholds) = None"
          "targetRange None (temperature_thresholds callerThresholds) = None"
    by (simp_all add: targetRange_def)
  have "?r \<noteq> []"
    using length_calculateFinalRecommendations [of None None None ?d callerThresholds "Some []"] names
    by (cases "allZoneNamesOf ?d") auto
  hence "hd ?r \<in> set ?r" by (rule hd_in_set)
  with no_preference_scores [OF t names, of "Some []", THEN conjunct2] show ?thesis by blast
qed

section \<open>Properties of the CSV parsers\<close>

subsection \<open>Rounding to a double keeps the sign\<close>

lemma pow2_powi: "pow2 q = 2 powi q"
  by (simp add: pow2_def power_int_def inverse_eq_divide power_one_over)

lemma pow2_pos: "0 < pow2 q"
  by (simp add: pow2_powi)

lemma pow2_mono: "a \<le> b \<Longrightarrow> pow2 a \<le> pow2 b"
  by (simp add: pow2_powi power_int_increasing)

lemma binaryExponent_le:
  assumes "0 < y"
  shows "pow2 (binaryExponent y) \<le> y"
proof (cases "1 \<le> y")
  case True
  hence n: "0 < \<lfloor>y\<rfloor>" by simp
  from bitlen_bounds [OF n] have b: "2 ^ nat (bitlen \<lfloor>y\<rfloor> - 1) \<le> \<lfloor>y\<rfloor>" ..
  from n have "1 \<le> bitlen \<lfloor>y\<rfloor>" by (auto simp: bitlen_alt_def)
  hence "pow2 (bitlen \<lfloor>y\<rfloor> - 1) = of_int (2 ^ nat (bitlen \<lfloor>y\<rfloor> - 1))"
    by (simp add: pow2_def)
  also have "\<dots> \<le> of_int \<lfloor>y\<rfloor>" using b by (simp only: of_int_le_iff)
  also have "\<dots> \<le> y" by (rule of_int_floor_le)
  finally show ?thesis using True by (simp add: binaryExponent_def)
next
  case False
  define k where "k = bitlen \<lfloor>1 / y\<rfloor> - 1"
  have be: "binaryExponent y = (if y = pow2 (- k) then - k else - k - 1)"
    using False by (simp add: binaryExponent_def Let_def k_def)
  show ?thesis
  proof (cases "y = pow2 (- k)")
    case True
    have "binaryExponent y = - k" by (rule trans [OF be if_P [OF True]])
    hence "pow2 (binaryExponent y) = pow2 (- k)" by (rule arg_cong)
    also have "\<dots> = y" by (rule True [symmetric])
    finally show ?thesis by (rule eq_refl)
  next
    case ne: False
    from False assms have "1 < 1 / y" by simp
    hence m: "0 < \<lfloor>1 / y\<rfloor>" by simp
    from bitlen_bounds [OF m] have "\<lfloor>1 / y\<rfloor> < 2 ^ nat (bitlen \<lfloor>1 / y\<rfloor>)" ..
    hence "\<lfloor>1 / y\<rfloor> + 1 \<le> 2 ^ nat (bitlen \<lfloor>1 / y\<rfloor>)" by simp
    hence "(of_int (\<lfloor>1 / y\<rfloor> + 1) :: rat) \<le> of_int (2 ^ nat (bitlen \<lfloor>1 / y\<rfloor>))"
      by (simp only: of_int_le_iff)
    moreover have "1 / y < of_int (\<lfloor>1 / y\<rfloor> + 1)" by linarith
    ultimately have u: "1 / y < 2 ^ nat (bitlen \<lfloor>1 / y\<rfloor>)" by simp
    from m have k0: "0 \<le> k" by (auto simp: k_def bitlen_alt_def)
    hence kk: "nat (bitlen \<lfloor>1 / y\<rfloor>) = nat (k + 1)" by (simp add: k_def)
    have "1 / 2 ^ nat (k + 1) < y"
    proof -
      have "1 < y * 2 ^ nat (k + 1)" using u assms unfolding kk by (simp add: field_simps)
      thus ?thesis by (simp add: field_simps)
    qed
    moreover have "pow2 (- k - 1) = 1 / 2 ^ nat (k + 1)"
      using k0 by (simp add: pow2_def)
    ultimately have "pow2 (- k - 1) \<le> y" by simp
    moreover have "binaryExponent y = - k - 1" by (rule trans [OF be if_not_P [OF ne]])
    ultimately show ?thesis by (simp only:)
  qed
qed

lemma roundHalfEven_ge_floor: "\<lfloor>y\<rfloor> \<le> roundHalfEven y"
  by (simp add: roundHalfEven_def Let_def)

lemma toDouble_pos:
  assumes "0 < x"
  shows "0 < toDouble x"
proof -
  define q where "q = binaryExponent \<bar>x\<bar> - 52"
  have "pow2 q \<le> pow2 (binaryExponent \<bar>x\<bar>)" unfolding q_def by (rule pow2_mono) simp
  also have "\<dots> \<le> \<bar>x\<bar>" using assms by (intro binaryExponent_le) simp
  finally have "1 \<le> \<bar>x\<bar> / pow2 q" using pow2_pos [of q] by (simp add: field_simps)
  hence "1 \<le> \<lfloor>\<bar>x\<bar> / pow2 q\<rfloor>" by simp
  hence "1 \<le> roundHalfEven (\<bar>x\<bar> / pow2 q)"
    using roundHalfEven_ge_floor [of "\<bar>x\<bar> / pow2 q"] by linarith
  hence "0 < (of_int (roundHalfEven (\<bar>x\<bar> / pow2 q)) :: rat) * pow2 q"
    using pow2_pos [of q] by simp
  thus ?thesis using assms by (simp add: toDouble_def Let_def q_def)
qed

lemma toDouble_nonneg: "0 \<le> x \<Longrightarrow> 0 \<le> toDouble x"
  using toDouble_pos [of x] by (cases "x = 0") (simp_all add: toDouble_def less_imp_le)

lemma dadd_pos: "0 \<le> a \<Longrightarrow> 0 < b \<Longrightarrow> 0 < dadd a b"
  unfolding dadd_def by (rule toDouble_pos) simp

subsection \<open>The office-hours average of a row of named periods\<close>

lemma weightedCell_positive: "(v, w) \<in> set (weightedCell headers vals col) \<Longrightarrow> 0 < w"
  by (auto simp: weightedCell_def split: option.splits if_splits)

lemma periodStep_sums:
  "\<exists>ts'. periodStep headers vals (ts, ws, tw) col =
     (ts', foldl dadd ws (map (\<lambda>(v, w). dmul v w) (weightedCell headers vals col)),
           foldl dadd tw (map snd (weightedCell headers vals col)))"
  by (simp add: periodStep_def weightedCell_def split: option.splits)

lemma foldl_periodStep:
  "\<exists>ts'. foldl (periodStep headers vals) (ts, ws, tw) cols =
     (ts', foldl dadd ws (map (\<lambda>(v, w). dmul v w) (concat (map (weightedCell headers vals) cols))),
           foldl dadd tw (map snd (concat (map (weightedCell headers vals) cols))))"
proof (induction cols arbitrary: ts ws tw)
  case Nil
  show ?case by simp
next
  case (Cons col cols)
  let ?c = "weightedCell headers vals col"
  from periodStep_sums [of headers vals ts ws tw col] obtain ts1 where
    1: "periodStep headers vals (ts, ws, tw) col =
         (ts1, foldl dadd ws (map (\<lambda>(v, w). dmul v w) ?c), foldl dadd tw (map snd ?c))" by blast
  from Cons.IH [of ts1 "foldl dadd ws (map (\<lambda>(v, w). dmul v w) ?c)" "foldl dadd tw (map snd ?c)"]
  obtain ts2 where
    2: "foldl (periodStep headers vals)
          (ts1, foldl dadd ws (map (\<lambda>(v, w). dmul v w) ?c), foldl dadd tw (map snd ?c)) cols =
        (ts2, foldl dadd (foldl dadd ws (map (\<lambda>(v, w). dmul v w) ?c))
                 (map (\<lambda>(v, w). dmul v w) (concat (map (weightedCell headers vals) cols))),
              foldl dadd (foldl dadd tw (map snd ?c))
                 (map snd (concat (map (weightedCell headers vals) cols))))" by blast
  show ?case by (rule exI [of _ ts2]) (simp add: 1 2)
qed

lemma foldl_dadd_pos_from_pos:
  "0 < a \<Longrightarrow> \<forall>w \<in> set ws. 0 < w \<Longrightarrow> 0 < foldl dadd a ws"
proof (induction ws arbitrary: a)
  case Nil
  thus ?case by simp
next
  case (Cons w ws)
  hence "0 < dadd a w" by (intro dadd_pos) simp_all
  with Cons show ?case by simp
qed

lemma doubleSum_pos:
  assumes "\<forall>w \<in> set ws. 0 < w" "ws \<noteq> []"
  shows "0 < doubleSum ws"
proof -
  from assms(2) obtain w rest where ws: "ws = w # rest" by (cases ws) auto
  with assms(1) have "0 < dadd 0 w" by (intro dadd_pos) simp_all
  moreover from assms(1) ws have "\<forall>u \<in> set rest. 0 < u" by simp
  ultimately have "0 < foldl dadd (dadd 0 w) rest" by (rule foldl_dadd_pos_from_pos)
  thus ?thesis by (simp add: doubleSum_def ws)
qed

lemma indexOf_lt: "indexOf xs x = Some i \<Longrightarrow> i < length xs"
  by (induction xs arbitrary: i) (auto split: if_splits)

lemma descriptiveRow_spec:
  assumes zci: "zci < length headers"
  shows "(if length vals = length headers \<and> vals ! zci \<noteq> []
          then \<exists>r. descriptiveRow headers zci (otherColumns headers zci) dataType vals = Some r \<and>
                   Zones r = vals ! zci \<and>
                   averageLux r =
                     (if dataType = ''Light''
                      then roundedAverage
                             (concat (map (weightedCell headers vals) (otherColumns headers zci)))
                      else Undefined)
          else descriptiveRow headers zci (otherColumns headers zci) dataType vals = None)"
proof (cases "length vals = length headers \<and> vals ! zci \<noteq> []")
  case False
  with zci show ?thesis by (auto simp: descriptiveRow_def elemAt_def)
next
  case True
  let ?ps = "concat (map (weightedCell headers vals) (otherColumns headers zci))"
  from foldl_periodStep [of headers vals "[]" 0 0 "otherColumns headers zci"]
  obtain ts' where f: "foldl (periodStep headers vals) ([], 0, 0) (otherColumns headers zci) =
     (ts', doubleSum (map (\<lambda>(v, w). dmul v w) ?ps), doubleSum (map snd ?ps))"
    unfolding doubleSum_def by blast
  have allpos: "\<forall>w \<in> set (map snd ?ps). 0 < w"
    by (auto dest: weightedCell_positive)
  have pos: "0 < doubleSum (map snd ?ps) \<longleftrightarrow> ?ps \<noteq> []"
  proof (cases "?ps = []")
    case True
    have "doubleSum (map snd []) = 0" by (simp add: doubleSum_def)
    hence "doubleSum (map snd ?ps) = 0" by (simp only: True)
    with True show ?thesis by (simp only:) simp
  next
    case False
    hence "map snd ?ps \<noteq> []" by simp
    with allpos have "0 < doubleSum (map snd ?ps)" by (rule doubleSum_pos)
    with False show ?thesis by simp
  qed
  let ?r = "\<lparr>Zones = vals ! zci, timeSeries = ts',
             averageLux = (if dataType = ''Light''
                           then (if 0 < doubleSum (map snd ?ps)
                                 then Num (of_int (round (ddiv (doubleSum (map (\<lambda>(v, w). dmul v w) ?ps))
                                                             (doubleSum (map snd ?ps)))))
                                 else Str ''N/A'')
                           else Undefined),
             averageDb = Undefined, averageTemp = Undefined\<rparr>"
  have row: "descriptiveRow headers zci (otherColumns headers zci) dataType vals = Some ?r"
    using True zci f by (simp add: descriptiveRow_def elemAt_def)
  have avg: "averageLux ?r = (if dataType = ''Light'' then roundedAverage ?ps else Undefined)"
    using pos by (simp add: roundedAverage_def)
  have ex: "\<exists>r. descriptiveRow headers zci (otherColumns headers zci) dataType vals = Some r \<and>
             Zones r = vals ! zci \<and>
             averageLux r = (if dataType = ''Light'' then roundedAverage ?ps else Undefined)"
    by (rule exI [of _ ?r]) (intro conjI row avg, simp)
  show ?thesis by (subst if_P [OF True]) (rule ex)
qed

lemma map_filter_rows:
  assumes "\<And>x. if P x then \<exists>r. f x = Some r \<and> g r = h x else f x = None"
  shows "map g (List.map_filter f xs) = map h (filter P xs)"
proof (induction xs)
  case Nil
  show ?case by (simp add: map_filter_simps)
next
  case (Cons x xs)
  show ?case
  proof (cases "P x")
    case True
    with assms [of x] obtain r where "f x = Some r" "g r = h x" by auto
    with True Cons show ?thesis by (simp add: map_filter_simps)
  next
    case False
    with assms [of x] have "f x = None" by simp
    with False Cons show ?thesis by (simp add: map_filter_simps)
  qed
qed

lemma map_filter_comp: "List.map_filter (\<lambda>x. f (g x)) xs = List.map_filter f (map g xs)"
  by (induction xs) (auto simp: map_filter_simps split: option.splits)

text \<open>
  Claim C7, as stated: the average of a parsed row equals the sum of value times weight over
  the periods with positive office-hours weight, divided by the sum of those weights. The
  parser stores \<^verbatim>\<open>Math.round\<close> of that quotient: for the row \<^verbatim>\<open>8,1,2\<close> under the header
  \<^verbatim>\<open>Zones,Morning,Early Morning\<close> the quotient is \<open>(1 * 0.4 + 2 * 0.1) / 0.5\<close>, about 1.2,
  and the stored average is 1.
\<close>

theorem descriptive_average_unrounded_counterexample:
  "averageLux (hd (processDataWithDescriptiveTimes
                     (Str (''Zones,Morning,Early Morning'' @ [CHR 0x0A] @ ''8,1,2''))
                     ''Zones'' ''Light'')) = Num 1 \<and>
   Num 1 \<noteq> Num (weightedAverage (weightedPeriods (cells ''Zones,Morning,Early Morning'')
                                    (cells ''8,1,2'')))"
  by code_simp

text \<open>
  Claim C7, amended: the rows returned by \<open>processDataWithDescriptiveTimes\<close> are, in
  order, the data lines that have as many fields as the header and a zone name. With data
  type \<^verbatim>\<open>'Light'\<close> the \<open>averageLux\<close> of a row is computed from its own line: over the
  periods with positive office-hours weight and a numeric cell, the sum of value times
  weight divided by the sum of the weights, both sums and the quotient taken in double
  arithmetic from left to right, rounded to an integer by \<^verbatim>\<open>Math.round\<close>; it is
  \<^verbatim>\<open>'N/A'\<close> when the line has no such period. With any other data type no average is
  set.
\<close>

theorem descriptive_average_rounded:
  assumes lines: "splitLines (trim csv) = headerLine # l # ls"
      and zci: "indexOf (cells headerLine) ''Zones'' = Some zoneColumnIndex"
  shows "map (\<lambda>r. (Zones r, averageLux r))
           (processDataWithDescriptiveTimes (Str csv) zoneColumnNameUnused dataType)
         = map (\<lambda>vals. (vals ! zoneColumnIndex,
                         if dataType = ''Light''
                         then roundedAverage (weightedPeriods (cells headerLine) vals)
                         else Undefined))
             (filter (\<lambda>vals. length vals = length (cells headerLine) \<and> vals ! zoneColumnIndex \<noteq> [])
                (map cells (l # ls)))"
proof -
  let ?h = "cells headerLine"
  let ?f = "\<lambda>vals. descriptiveRow ?h zoneColumnIndex (otherColumns ?h zoneColumnIndex) dataType vals"
  have lt: "zoneColumnIndex < length ?h" using zci by (rule indexOf_lt)
  have out: "processDataWithDescriptiveTimes (Str csv) zoneColumnNameUnused dataType
               = List.map_filter ?f (map cells (l # ls))"
    unfolding map_filter_comp [symmetric]
    using lines zci
    by (simp add: processDataWithDescriptiveTimes_def processDataWithDescriptiveTimes_try_def
          Let_def del: map_filter_simps)
  have wp: "weightedPeriods ?h vals
              = concat (map (weightedCell ?h vals) (otherColumns ?h zoneColumnIndex))" for vals
    using zci by (simp add: weightedPeriods_def)
  have "map (\<lambda>r. (Zones r, averageLux r)) (List.map_filter ?f (map cells (l # ls)))
        = map (\<lambda>vals. (vals ! zoneColumnIndex,
                         if dataType = ''Light''
                         then roundedAverage (weightedPeriods ?h vals)
                         else Undefined))
             (filter (\<lambda>vals. length vals = length ?h \<and> vals ! zoneColumnIndex \<noteq> [])
                (map cells (l # ls)))"
  proof (rule map_filter_rows)
    fix vals
    from descriptiveRow_spec [OF lt, of vals dataType]
    show "if length vals = length ?h \<and> vals ! zoneColumnIndex \<noteq> []
          then \<exists>r. ?f vals = Some r \<and>
                 (Zones r, averageLux r) =
                 (vals ! zoneColumnIndex,
                  if dataType = ''Light'' then roundedAverage (weightedPeriods ?h vals) else Undefined)
          else ?f vals = None"
      unfolding wp by (auto split: if_splits)
  qed
  thus ?thesis by (simp only: out)
qed

theorem descriptive_average_rounded_witness:
  "map (\<lambda>r. (Zones r, averageLux r))
     (processDataWithDescriptiveTimes
        (Str (''Zones,Morning,Afternoon'' @ [CHR 0x0A] @ ''8,5,2'' @ [CHR 0x0A] @ ''9,x,''))
        ''Zones'' ''Light'')
   = [(''8'', Num 3), (''9'', Str ''N/A'')]"
proof -
  have lines: "splitLines (trim (''Zones,Morning,Afternoon'' @ [CHR 0x0A] @ ''8,5,2'' @ [CHR 0x0A] @ ''9,x,''))
                 = ''Zones,Morning,Afternoon'' # ''8,5,2'' # [''9,x,'']"
    by code_simp
  have zci: "indexOf (cells ''Zones,Morning,Afternoon'') ''Zones'' = Some 0" by code_simp
  have rhs: "map (\<lambda>vals. (vals ! 0,
                         if ''Light'' = ''Light''
                         then roundedAverage (weightedPeriods (cells ''Zones,Morning,Afternoon'') vals)
                         else Undefined))
             (filter (\<lambda>vals. length vals = length (cells ''Zones,Morning,Afternoon'') \<and> vals ! 0 \<noteq> [])
                (map cells (''8,5,2'' # [''9,x,''])))
             = [(''8'', Num 3), (''9'', Str ''N/A'')]"
    by code_simp
  from descriptive_average_rounded [OF lines zci, of "''Zones''" "''Light''"] rhs
  show ?thesis by (simp only:)
qed

subsection \<open>Structural failures\<close>

lemma indexOf_None_iff: "indexOf xs x = None \<longleftrightarrow> x \<notin> set xs"
  by (induction xs) auto

lemma findHeaderRow_None:
  "\<forall>line \<in> set (take (5 - i) lines).
      \<not> (''hour'' \<in> set (map toLowerCase (cells line)) \<and> length (cells line) > 1)
   \<Longrightarrow> findHeaderRow i lines = None"
proof (induction lines arbitrary: i)
  case Nil
  show ?case by simp
next
  case (Cons line rest)
  show ?case
  proof (cases "i < 5")
    case True
    then obtain k where k: "5 - i = Suc k" by (cases "5 - i") auto
    hence k': "5 - (i + 1) = k" by simp
    from Cons.prems k have 1: "\<not> (''hour'' \<in> set (map toLowerCase (cells line)) \<and> length (cells line) > 1)"
      and 2: "\<forall>line \<in> set (take k rest).
                \<not> (''hour'' \<in> set (map toLowerCase (cells line)) \<and> length (cells line) > 1)"
      by simp_all
    from 2 k' have "findHeaderRow (i + 1) rest = None" by (intro Cons.IH) simp
    with True 1 show ?thesis by (simp add: Let_def)
  next
    case False
    thus ?thesis by simp
  qed
qed

lemma findHeaderRow_index:
  "findHeaderRow k lines = Some (i, h) \<Longrightarrow> k \<le> i \<and> i < k + length lines"
proof (induction lines arbitrary: k)
  case Nil
  thus ?case by simp
next
  case (Cons line rest)
  show ?case
  proof (cases "k < 5 \<and> ''hour'' \<in> set (map toLowerCase (cells line)) \<and> length (cells line) > 1")
    case True
    with Cons.prems show ?thesis by (simp add: Let_def)
  next
    case False
    with Cons.prems have "findHeaderRow (k + 1) rest = Some (i, h)"
      by (auto simp: Let_def split: if_splits)
    from Cons.IH [OF this] show ?thesis by simp
  qed
qed

lemma descriptive_try_total:
  "\<exists>rows. processDataWithDescriptiveTimes_try (Str s) zc dt = Inr rows"
  by (simp add: processDataWithDescriptiveTimes_try_def Let_def split: list.splits option.splits)

lemma zoneRow_try_total:
  "\<exists>rows. processZoneRowHourlyData_try (Str s) tz dt = Inr rows"
  by (simp add: processZoneRowHourlyData_try_def Let_def split: list.splits)

lemma zoneColumn_try_total:
  "\<exists>rows. processZoneColumnHourlyData_try (Str s) dt = Inr rows"
  by (simp add: processZoneColumnHourlyData_try_def Let_def split: option.splits prod.splits)

lemma descriptive_too_few_lines:
  "length (splitLines (trim s)) < 2 \<Longrightarrow> processDataWithDescriptiveTimes (Str s) zc dt = []"
  by (auto simp: processDataWithDescriptiveTimes_def processDataWithDescriptiveTimes_try_def
        split: list.splits)

lemma descriptive_no_header:
  "''Zones'' \<notin> set (cells (hd (splitLines (trim s))))
     \<Longrightarrow> processDataWithDescriptiveTimes (Str s) zc dt = []"
  by (auto simp: processDataWithDescriptiveTimes_def processDataWithDescriptiveTimes_try_def
        Let_def indexOf_None_iff [symmetric] split: list.splits option.splits)

lemma zoneRow_too_few_lines:
  "length (splitLines (trim s)) < 2 \<Longrightarrow> processZoneRowHourlyData (Str s) tz dt = []"
  by (auto simp: processZoneRowHourlyData_def processZoneRowHourlyData_try_def
        split: list.splits)

lemma zoneRow_no_hours:
  assumes "length (cells (hd (splitLines (trim s)))) < 2"
  shows "processZoneRowHourlyData (Str s) tz dt = []"
proof -
  have "processZoneRowHourlyData_try (Str s) tz dt = Inr []"
  proof (cases "splitLines (trim s)")
    case Nil
    thus ?thesis by (simp add: processZoneRowHourlyData_try_def)
  next
    case (Cons headerLine rest)
    with assms have "length (cells headerLine) < 2" by simp
    hence tl: "tl (cells headerLine) = []"
      by (cases "cells headerLine") simp_all
    show ?thesis
      by (cases rest)
         (simp_all add: processZoneRowHourlyData_try_def Let_def Cons tl del: zoneRows.simps)
  qed
  thus ?thesis by (simp add: processZoneRowHourlyData_def)
qed

lemma zoneColumn_too_few_lines:
  assumes "length (splitLines (trim s)) < 2"
  shows "processZoneColumnHourlyData (Str s) dt = []"
proof (cases "findHeaderRow 0 (splitLines (trim s))")
  case None
  thus ?thesis
    by (simp add: processZoneColumnHourlyData_def processZoneColumnHourlyData_try_def Let_def)
next
  case (Some p)
  obtain i h where p: "p = (i, h)" by (cases p)
  from findHeaderRow_index [of 0 "splitLines (trim s)" i h] Some p assms
  have "length (splitLines (trim s)) < i + 2" by simp
  with Some p show ?thesis
    by (simp add: processZoneColumnHourlyData_def processZoneColumnHourlyData_try_def Let_def)
qed

lemma zoneColumn_no_header:
  assumes "\<forall>line \<in> set (take 5 (splitLines (trim s))).
             \<not> (''hour'' \<in> set (map toLowerCase (cells line)) \<and> length (cells line) > 1)"
  shows "processZoneColumnHourlyData (Str s) dt = []"
proof -
  have "findHeaderRow 0 (splitLines (trim s)) = None"
    by (rule findHeaderRow_None) (use assms in simp)
  thus ?thesis
    by (simp add: processZoneColumnHourlyData_def processZoneColumnHourlyData_try_def Let_def)
qed

text \<open>
  Claim C8. For every CSV input string each of the three parsers returns a list: its
  \<^verbatim>\<open>try\<close> block completes without an exception, and an exception raised there (by a
  value that is not a string) is caught and turned into the empty list. On a structural
  failure the list is empty: fewer than 2 lines for every parser, no \<^verbatim>\<open>Zones\<close> header
  for the named-period layout, no hour column for the zone-row layout, no header line with
  an \<^verbatim>\<open>hour\<close> column among the first five lines for the hour-row layout.
\<close>

theorem parsers_never_throw:
  "(\<exists>rows. processDataWithDescriptiveTimes_try (Str s) zc dt = Inr rows) \<and>
   (\<exists>rows. processZoneRowHourlyData_try (Str s) tz dt = Inr rows) \<and>
   (\<exists>rows. processZoneColumnHourlyData_try (Str s) dt = Inr rows) \<and>
   (processDataWithDescriptiveTimes_try v zc dt = Inl e \<longrightarrow>
      processDataWithDescriptiveTimes v zc dt = []) \<and>
   (processZoneRowHourlyData_try v tz dt = Inl e \<longrightarrow> processZoneRowHourlyData v tz dt = []) \<and>
   (processZoneColumnHourlyData_try v dt = Inl e \<longrightarrow> processZoneColumnHourlyData v dt = []) \<and>
   (length (splitLines (trim s)) < 2 \<longrightarrow>
      processDataWithDescriptiveTimes (Str s) zc dt = [] \<and>
      processZoneRowHourlyData (Str s) tz dt = [] \<and>
      processZoneColumnHourlyData (Str s) dt = []) \<and>
   (''Zones'' \<notin> set (cells (hd (splitLines (trim s)))) \<longrightarrow>
      processDataWithDescriptiveTimes (Str s) zc dt = []) \<and>
   (length (cells (hd (splitLines (trim s)))) < 2 \<longrightarrow>
      processZoneRowHourlyData (Str s) tz dt = []) \<and>
   ((\<forall>line \<in> set (take 5 (splitLines (trim s))).
        \<not> (''hour'' \<in> set (map toLowerCase (cells line)) \<and> length (cells line) > 1)) \<longrightarrow>
      processZoneColumnHourlyData (Str s) dt = [])"
proof (intro conjI impI)
  show "\<exists>rows. processDataWithDescriptiveTimes_try (Str s) zc dt = Inr rows"
    by (rule descriptive_try_total)
  show "\<exists>rows. processZoneRowHourlyData_try (Str s) tz dt = Inr rows"
    by (rule zoneRow_try_total)
  show "\<exists>rows. processZoneColumnHourlyData_try (Str s) dt = Inr rows"
    by (rule zoneColumn_try_total)
  show "processDataWithDescriptiveTimes v zc dt = []"
    if "processDataWithDescriptiveTimes_try v zc dt = Inl e"
    using that by (simp add: processDataWithDescriptiveTimes_def)
  show "processZoneRowHourlyData v tz dt = []"
    if "processZoneRowHourlyData_try v tz dt = Inl e"
    using that by (simp add: processZoneRowHourlyData_def)
  show "processZoneColumnHourlyData v dt = []"
    if "processZoneColumnHourlyData_try v dt = Inl e"
    using that by (simp add: processZoneColumnHourlyData_def)
  show "processDataWithDescriptiveTimes (Str s) zc dt = []" if "length (splitLines (trim s)) < 2"
    using that by (rule descriptive_too_few_lines)
  show "processZoneRowHourlyData (Str s) tz dt = []" if "length (splitLines (trim s)) < 2"
    using that by (rule zoneRow_too_few_lines)
  show "processZoneColumnHourlyData (Str s) dt = []" if "length (splitLines (trim s)) < 2"
    using that by (rule zoneColumn_too_few_lines)
  show "processDataWithDescriptiveTimes (Str s) zc dt = []"
    if "''Zones'' \<notin> set (cells (hd (splitLines (trim s))))"
    using that by (rule descriptive_no_header)
  show "processZoneRowHourlyData (Str s) tz dt = []"
    if "length (cells (hd (splitLines (trim s)))) < 2"
    using that by (rule zoneRow_no_hours)
  show "processZoneColumnHourlyData (Str s) dt = []"
    if "\<forall>line \<in> set (take 5 (splitLines (trim s))).
        \<not> (''hour'' \<in> set (map toLowerCase (cells line)) \<and> length (cells line) > 1)"
    using that by (rule zoneColumn_no_header)
qed

theorem parsers_never_throw_witness:
  "processDataWithDescriptiveTimes Null ''Zones'' ''Light'' = [] \<and>
   processZoneRowHourlyData (Num 1) None ''Temperature'' = [] \<and>
   processZoneColumnHourlyData (Num 1) ''Noise'' = [] \<and>
   processDataWithDescriptiveTimes (Str ''Zone'') ''Zones'' ''Light'' = [] \<and>
   processZoneRowHourlyData (Str ''Zone'') None ''Temperature'' = [] \<and>
   processZoneColumnHourlyData (Str ''Zone'') ''Noise'' = []"
proof -
  have 1: "processDataWithDescriptiveTimes_try Null ''Zones'' ''Light'' = Inl TypeError"
    by (simp add: processDataWithDescriptiveTimes_try_def)
  have 2: "processZoneRowHourlyData_try (Num 1) None ''Temperature'' = Inl TypeError"
    by (simp add: processZoneRowHourlyData_try_def)
  have 3: "processZoneColumnHourlyData_try (Num 1) ''Noise'' = Inl TypeError"
    by (simp add: processZoneColumnHourlyData_try_def)
  have 4: "length (splitLines (trim ''Zone'')) < 2" by code_simp
  have 5: "''Zones'' \<notin> set (cells (hd (splitLines (trim ''Zone''))))" by code_simp
  have 6: "length (cells (hd (splitLines (trim ''Zone'')))) < 2" by code_simp
  have 7: "\<forall>line \<in> set (take 5 (splitLines (trim ''Zone''))).
        \<not> (''hour'' \<in> set (map toLowerCase (cells line)) \<and> length (cells line) > 1)"
    by code_simp
  from parsers_never_throw [where s = "''Zone''" and v = Null and e = TypeError
         and zc = "''Zones''" and dt = "''Light''" and tz = None] 1
  have a: "processDataWithDescriptiveTimes Null ''Zones'' ''Light'' = []"
          "processDataWithDescriptiveTimes (Str ''Zone'') ''Zones'' ''Light'' = []"
    using 4 5 by blast+
  from parsers_never_throw [where s = "''Zone''" and v = "Num 1" and e = TypeError
         and zc = "''Zones''" and dt = "''Temperature''" and tz = None] 2
  have b: "processZoneRowHourlyData (Num 1) None ''Temperature'' = []"
          "processZoneRowHourlyData (Str ''Zone'') None ''Temperature'' = []"
    using 4 6 by blast+
  from parsers_never_throw [where s = "''Zone''" and v = "Num 1" and e = TypeError
         and zc = "''Zones''" and dt = "''Noise''" and tz = None] 3
  have c: "processZoneColumnHourlyData (Num 1) ''Noise'' = []"
          "processZoneColumnHourlyData (Str ''Zone'') ''Noise'' = []"
    using 4 7 by blast+
  from a b c show ?thesis by simp
qed

end
